theory Spec2Isabelle
  imports Complex_Main
begin

text \<open>
  A model of the davisweather client: the decoders of the parser package, the Report
  with its three update entry points and the finalize step, snapshots and their
  serialized form, the client constructors and one tick of the UDP lease watchdog.
  Logging, the mutex and the goroutines are left out: every operation is one atomic
  step on an explicit state, and a channel is the number of values it buffers.
\<close>

section \<open>Values shared by the parser and the report\<close>

text \<open>
  A \<^verbatim>\<open>float64\<close> measurement is only ever copied and serialized, never computed
  with, so it is modelled by a real number. An instant (\<^verbatim>\<open>time.Time\<close>) is the number
  of nanoseconds since the Unix epoch; the zero value of \<^verbatim>\<open>time.Time\<close> is
  January 1 of year 1. A Go pointer field is an \<open>option\<close>: \<open>None\<close> is the nil pointer.
\<close>

type_synonym float64 = real
type_synonym time = int

definition zeroTime :: time where
  "zeroTime = - 62135596800 * 1000000000"

definition time_Unix :: "int \<Rightarrow> time" where
  "time_Unix sec = sec * 1000000000"

text \<open>Errors are values; a run-time panic (nil dereference, failed type assertion) is
  an outcome of its own.\<close>

datatype go_error =
    UnmarshalTypeError
  | InvalidUnmarshalError
  | NumError
  | SyntaxError
  | MarshalerError
  | ZlibError
  | ErrorMessage string
  | errInvalidHostname

datatype 'a result = Ok 'a | Err go_error | Panicked

subsection \<open>parser/constants.go\<close>

definition RecordISS :: int where "RecordISS = 1"
definition RecordLSSBarometer :: int where "RecordLSSBarometer = 3"
definition RecordLSSTempRh :: int where "RecordLSSTempRh = 4"

definition SignalSynced :: int where "SignalSynced = 0"
definition SignalRescan :: int where "SignalRescan = 1"
definition SignalLost :: int where "SignalLost = 2"

definition BatteryNominal :: int where "BatteryNominal = 0"
definition BatteryWarning :: int where "BatteryWarning = 1"

datatype UpdateMethod = MethodHTTP | MethodUDP | MethodJSON

section \<open>The parser package\<close>

subsection \<open>Decoded records\<close>

text \<open>Several structs name their fields alike, so the fields of the parser records
  carry a prefix: \<open>udp_\<close>, \<open>iss_\<close>, \<open>lss_\<close>, \<open>hdr_\<close>, \<open>http_\<close>, \<open>br_\<close>.\<close>

record Error =
  Code :: int
  Message :: string

record ConnInfo =
  Port :: int
  Duration :: int

record BroadcastResponse =
  br_ConnInfo :: "ConnInfo option"
  br_Error :: "Error option"

record EntryUDP =
  udp_LogicalSensorID :: "int option"
  udp_DataStructureType :: "int option"
  udp_TransmitterID :: "int option"
  udp_WindSpeedLast :: "float64 option"
  udp_WindDirLast :: "float64 option"
  udp_RainSize :: "float64 option"
  udp_RainRateLast :: "float64 option"
  udp_RainLast15Min :: "float64 option"
  udp_RainLast60Min :: "float64 option"
  udp_RainLast24Hour :: "float64 option"
  udp_RainStorm :: "float64 option"
  udp_RainStormStartAt :: "time option"
  udp_RainfallDaily :: "float64 option"
  udp_RainfallMonthly :: "float64 option"
  udp_RainfallYear :: "float64 option"
  udp_WindSpeedHighLast10Min :: "float64 option"
  udp_WindDirAtHighLast10Min :: "float64 option"

record ConditionsUDP =
  udp_DeviceID :: string
  udp_Timestamp :: "time option"
  udp_Conditions :: "EntryUDP list"

record WeatherISS =
  iss_TransmitterID :: "int option"
  iss_Temperature :: "float64 option"
  iss_Humidity :: "float64 option"
  iss_Dewpoint :: "float64 option"
  iss_Wetbulb :: "float64 option"
  iss_HeatIndex :: "float64 option"
  iss_WindChill :: "float64 option"
  iss_THWIndex :: "float64 option"
  iss_THSWIndex :: "float64 option"
  iss_WindSpeedLast :: "float64 option"
  iss_WindDirLast :: "float64 option"
  iss_WindSpeedAvgLast1Min :: "float64 option"
  iss_WindDirAvgLast1Min :: "float64 option"
  iss_WindSpeedAvgLast2Min :: "float64 option"
  iss_WindDirAvgLast2Min :: "float64 option"
  iss_WindSpeedHighLast2Min :: "float64 option"
  iss_WindDirAtHighLast2Min :: "float64 option"
  iss_WindSpeedAvgLast10Min :: "float64 option"
  iss_WindDirAvgLast10Min :: "float64 option"
  iss_WindSpeedHighLast10Min :: "float64 option"
  iss_WindDirAtHighLast10Min :: "float64 option"
  iss_RainSize :: "float64 option"
  iss_RainRateLast :: "float64 option"
  iss_RainRateHigh :: "float64 option"
  iss_RainLast15Min :: "float64 option"
  iss_RainRateHighLast15Min :: "float64 option"
  iss_RainLast60Min :: "float64 option"
  iss_RainLast24Hour :: "float64 option"
  iss_RainStorm :: "float64 option"
  iss_RainStormStartAt :: "time option"
  iss_SolarRad :: "float64 option"
  iss_UVIndex :: "float64 option"
  iss_RXState :: "int option"
  iss_TransBatteryFlag :: "int option"
  iss_RainfallDaily :: "float64 option"
  iss_RainfallMonthly :: "float64 option"
  iss_RainfallYear :: "float64 option"
  iss_RainStormLast :: "float64 option"
  iss_RainStormLastStartAt :: "time option"
  iss_RainStormLastEndAt :: "time option"

record WeatherLSSBarometer =
  lss_BarometerSeaLevel :: "float64 option"
  lss_BarometerTrend :: "float64 option"
  lss_BarometerAbsolute :: "float64 option"

record WeatherLSSTempRh =
  lss_TemperatureIndoor :: "float64 option"
  lss_HumidityIndoor :: "float64 option"
  lss_DewPointIndoor :: "float64 option"
  lss_HeatIndexIndoor :: "float64 option"

text \<open>The \<^verbatim>\<open>Values interface{}\<close> of an HTTP entry holds nil or a pointer to one of the
  three record shapes.\<close>

datatype Values =
    NilValues
  | ISSValues WeatherISS
  | BarometerValues WeatherLSSBarometer
  | TempRhValues WeatherLSSTempRh

record conditionHeader =
  hdr_LogicalSensorID :: "int option"
  hdr_DataStructureType :: "int option"

record EntryHTTP =
  LogicalSensorID :: "int option"
  DataStructureType :: "int option"
  Values :: Values

record WeatherHTTP =
  http_DeviceID :: string
  http_Timestamp :: "time option"
  http_Conditions :: "EntryHTTP list"

record ConditionsHTTP =
  http_Data :: "WeatherHTTP option"
  http_Error :: "Error option"

subsection \<open>JSON documents and the decoding discipline of \<^verbatim>\<open>encoding/json\<close>\<close>

text \<open>
  The decoders take a well-formed JSON document. A number literal without fraction and
  exponent is \<open>JInt\<close>, any other number literal is \<open>JFrac\<close>: only the former parses as
  an integer (a literal beyond the range of \<^verbatim>\<open>float64\<close> is not represented). The
  members of an object are kept in document order. A member name selects the struct
  field whose tag it equals up to case folding: ASCII letters regardless of case, the
  long s (bytes C5 BF) for s and the Kelvin sign (bytes E2 84 AA) for k. A member name
  that occurs twice is decoded afresh the second time, where \<^verbatim>\<open>encoding/json\<close>
  decodes into the value left by the first; nothing below depends on the difference.
  \<^verbatim>\<open>int\<close> has 64 bits.

  \<^verbatim>\<open>json.Unmarshal\<close> walks the members in order. A value of the wrong type for a plain
  field is recorded (the first such error is kept) and decoding goes on; an error
  returned by an \<^verbatim>\<open>UnmarshalJSON\<close> method stops decoding at once; a panic inside such a
  method unwinds everything. A decoding state \<open>Cont x e\<close> is the value built so far with
  the recorded error.
\<close>

datatype json =
    JNull
  | JBool bool
  | JInt int
  | JFrac real
  | JStr string
  | JArr "json list"
  | JObj "(string \<times> json) list"

datatype 'a dec = Cont 'a "go_error option" | Abort go_error | Crash

definition dec_map :: "('a \<Rightarrow> 'b) \<Rightarrow> 'a dec \<Rightarrow> 'b dec" where
  "dec_map f d = (case d of Cont x e \<Rightarrow> Cont (f x) e | Abort e \<Rightarrow> Abort e | Crash \<Rightarrow> Crash)"

definition first_error :: "go_error option \<Rightarrow> go_error option \<Rightarrow> go_error option" where
  "first_error e e' = (case e of None \<Rightarrow> e' | Some x \<Rightarrow> Some x)"

definition in_int64 :: "int \<Rightarrow> bool" where
  "in_int64 i = (- 9223372036854775808 \<le> i \<and> i \<le> 9223372036854775807)"

text \<open>Pointer fields: \<^verbatim>\<open>null\<close> stores nil; a value of the wrong type leaves a pointer to
  the zero value behind and records the error.\<close>

definition set_float :: "json \<Rightarrow> float64 option dec" where
  "set_float v =
     (case v of
        JNull \<Rightarrow> Cont None None
      | JInt i \<Rightarrow> Cont (Some (of_int i)) None
      | JFrac x \<Rightarrow> Cont (Some x) None
      | _ \<Rightarrow> Cont (Some 0) (Some UnmarshalTypeError))"

definition set_int :: "json \<Rightarrow> int option dec" where
  "set_int v =
     (case v of
        JNull \<Rightarrow> Cont None None
      | JInt i \<Rightarrow> (if in_int64 i then Cont (Some i) None
                  else Cont (Some 0) (Some UnmarshalTypeError))
      | _ \<Rightarrow> Cont (Some 0) (Some UnmarshalTypeError))"

text \<open>A plain \<^verbatim>\<open>string\<close> or \<^verbatim>\<open>int\<close> field ignores \<^verbatim>\<open>null\<close>.\<close>

definition set_string :: "string \<Rightarrow> json \<Rightarrow> string dec" where
  "set_string old v =
     (case v of
        JNull \<Rightarrow> Cont old None
      | JStr s \<Rightarrow> Cont s None
      | _ \<Rightarrow> Cont old (Some UnmarshalTypeError))"

definition set_plain_int :: "int \<Rightarrow> json \<Rightarrow> int dec" where
  "set_plain_int old v =
     (case v of
        JNull \<Rightarrow> Cont old None
      | JInt i \<Rightarrow> (if in_int64 i then Cont i None else Cont old (Some UnmarshalTypeError))
      | _ \<Rightarrow> Cont old (Some UnmarshalTypeError))"

text \<open>parser/time.go: \<^verbatim>\<open>Time.UnmarshalJSON\<close> parses the raw text of the value as a
  base-10 64-bit integer of epoch seconds.\<close>

definition Time_UnmarshalJSON :: "json \<Rightarrow> go_error + time" where
  "Time_UnmarshalJSON payload =
     (case payload of
        JInt val \<Rightarrow> (if in_int64 val then Inr (time_Unix val) else Inl NumError)
      | _ \<Rightarrow> Inl NumError)"

definition set_time :: "json \<Rightarrow> time option dec" where
  "set_time v =
     (case v of
        JNull \<Rightarrow> Cont None None
      | _ \<Rightarrow> (case Time_UnmarshalJSON v of Inl e \<Rightarrow> Abort e | Inr t \<Rightarrow> Cont (Some t) None))"

definition ascii_lower :: "char \<Rightarrow> char" where
  "ascii_lower c =
     (if 65 \<le> (of_char c :: nat) \<and> (of_char c :: nat) \<le> 90 then
        (case c of Char b0 b1 b2 b3 b4 b5 b6 b7 \<Rightarrow> Char b0 b1 b2 b3 b4 True b6 b7)
      else c)"

fun foldName :: "string \<Rightarrow> string" where
  "foldName (c # d # e # cs) =
     (if c = CHR 0xE2 \<and> d = CHR 0x84 \<and> e = CHR 0xAA then CHR ''k'' # foldName cs
      else if c = CHR 0xC5 \<and> d = CHR 0xBF then CHR ''s'' # foldName (e # cs)
      else ascii_lower c # foldName (d # e # cs))"
| "foldName [c, d] =
     (if c = CHR 0xC5 \<and> d = CHR 0xBF then [CHR ''s''] else ascii_lower c # foldName [d])"
| "foldName [c] = [ascii_lower c]"
| "foldName [] = []"

fun decodeFields ::
  "(string \<Rightarrow> json \<Rightarrow> 's \<Rightarrow> 's dec) \<Rightarrow> (string \<times> json) list \<Rightarrow> 's \<Rightarrow> go_error option \<Rightarrow> 's dec"
where
  "decodeFields f [] s e = Cont s e"
| "decodeFields f ((k, v) # kvs) s e =
     (case f (foldName k) v s of
        Cont s' e' \<Rightarrow> decodeFields f kvs s' (first_error e e')
      | Abort x \<Rightarrow> Abort x
      | Crash \<Rightarrow> Crash)"

definition decodeStruct :: "(string \<Rightarrow> json \<Rightarrow> 's \<Rightarrow> 's dec) \<Rightarrow> 's \<Rightarrow> json \<Rightarrow> 's dec" where
  "decodeStruct f s v =
     (case v of
        JNull \<Rightarrow> Cont s None
      | JObj kvs \<Rightarrow> decodeFields f kvs s None
      | _ \<Rightarrow> Cont s (Some UnmarshalTypeError))"

fun decodeList :: "(json \<Rightarrow> 'a dec) \<Rightarrow> json list \<Rightarrow> 'a list dec" where
  "decodeList f [] = Cont [] None"
| "decodeList f (x # xs) =
     (case f x of
        Cont a e \<Rightarrow>
          (case decodeList f xs of
             Cont as e' \<Rightarrow> Cont (a # as) (first_error e e')
           | Abort y \<Rightarrow> Abort y
           | Crash \<Rightarrow> Crash)
      | Abort y \<Rightarrow> Abort y
      | Crash \<Rightarrow> Crash)"

definition decodeSlice :: "(json \<Rightarrow> 'a dec) \<Rightarrow> 'a list \<Rightarrow> json \<Rightarrow> 'a list dec" where
  "decodeSlice f old v =
     (case v of
        JNull \<Rightarrow> Cont [] None
      | JArr xs \<Rightarrow> decodeList f xs
      | _ \<Rightarrow> Cont old (Some UnmarshalTypeError))"

definition decodePtr :: "(string \<Rightarrow> json \<Rightarrow> 's \<Rightarrow> 's dec) \<Rightarrow> 's \<Rightarrow> json \<Rightarrow> 's option dec" where
  "decodePtr f z v =
     (case v of
        JNull \<Rightarrow> Cont None None
      | _ \<Rightarrow> dec_map Some (decodeStruct f z v))"

definition finish :: "'a dec \<Rightarrow> 'a result" where
  "finish d =
     (case d of
        Cont x None \<Rightarrow> Ok x
      | Cont x (Some e) \<Rightarrow> Err e
      | Abort e \<Rightarrow> Err e
      | Crash \<Rightarrow> Panicked)"

definition from_unmarshaler :: "'a result \<Rightarrow> 'a dec" where
  "from_unmarshaler r =
     (case r of Ok x \<Rightarrow> Cont x None | Err e \<Rightarrow> Abort e | Panicked \<Rightarrow> Crash)"

subsection \<open>parser/error.go, parser/enable\_udp.go\<close>

definition zeroError :: Error where
  "zeroError = \<lparr>Code = 0, Message = ''''\<rparr>"

definition Error_field :: "string \<Rightarrow> json \<Rightarrow> Error \<Rightarrow> Error dec" where
  "Error_field k v s =
     (if k = ''code'' then dec_map (\<lambda>x. s\<lparr>Code := x\<rparr>) (set_plain_int (Code s) v)
      else if k = ''message'' then dec_map (\<lambda>x. s\<lparr>Message := x\<rparr>) (set_string (Message s) v)
      else Cont s None)"

definition zeroConnInfo :: ConnInfo where
  "zeroConnInfo = \<lparr>Port = 0, Duration = 0\<rparr>"

definition ConnInfo_field :: "string \<Rightarrow> json \<Rightarrow> ConnInfo \<Rightarrow> ConnInfo dec" where
  "ConnInfo_field k v s =
     (if k = ''broadcast_port'' then dec_map (\<lambda>x. s\<lparr>Port := x\<rparr>) (set_plain_int (Port s) v)
      else if k = ''duration'' then dec_map (\<lambda>x. s\<lparr>Duration := x\<rparr>) (set_plain_int (Duration s) v)
      else Cont s None)"

definition BroadcastResponse_field ::
  "string \<Rightarrow> json \<Rightarrow> BroadcastResponse \<Rightarrow> BroadcastResponse dec" where
  "BroadcastResponse_field k v s =
     (if k = ''data'' then dec_map (\<lambda>x. s\<lparr>br_ConnInfo := x\<rparr>) (decodePtr ConnInfo_field zeroConnInfo v)
      else if k = ''error'' then dec_map (\<lambda>x. s\<lparr>br_Error := x\<rparr>) (decodePtr Error_field zeroError v)
      else Cont s None)"

definition ParseBroadcastResponse :: "json \<Rightarrow> BroadcastResponse result" where
  "ParseBroadcastResponse payload =
     finish (decodeStruct BroadcastResponse_field \<lparr>br_ConnInfo = None, br_Error = None\<rparr> payload)"

subsection \<open>The UDP decoder (\<^verbatim>\<open>ParseUDP\<close>)\<close>

definition zeroEntryUDP :: EntryUDP where
  "zeroEntryUDP = \<lparr>udp_LogicalSensorID = None, udp_DataStructureType = None, udp_TransmitterID = None, udp_WindSpeedLast = None, udp_WindDirLast = None, udp_RainSize = None, udp_RainRateLast = None, udp_RainLast15Min = None, udp_RainLast60Min = None, udp_RainLast24Hour = None, udp_RainStorm = None, udp_RainStormStartAt = None, udp_RainfallDaily = None, udp_RainfallMonthly = None, udp_RainfallYear = None, udp_WindSpeedHighLast10Min = None, udp_WindDirAtHighLast10Min = None\<rparr>"

definition EntryUDP_field :: "string \<Rightarrow> json \<Rightarrow> EntryUDP \<Rightarrow> EntryUDP dec" where
  "EntryUDP_field k v s =
     (if k = ''lsid'' then dec_map (\<lambda>x. s\<lparr>udp_LogicalSensorID := x\<rparr>) (set_int v)
      else if k = ''data_structure_type'' then dec_map (\<lambda>x. s\<lparr>udp_DataStructureType := x\<rparr>) (set_int v)
      else if k = ''txid'' then dec_map (\<lambda>x. s\<lparr>udp_TransmitterID := x\<rparr>) (set_int v)
      else if k = ''wind_speed_last'' then dec_map (\<lambda>x. s\<lparr>udp_WindSpeedLast := x\<rparr>) (set_float v)
      else if k = ''wind_dir_last'' then dec_map (\<lambda>x. s\<lparr>udp_WindDirLast := x\<rparr>) (set_float v)
      else if k = ''rain_size'' then dec_map (\<lambda>x. s\<lparr>udp_RainSize := x\<rparr>) (set_float v)
      else if k = ''rain_rate_last'' then dec_map (\<lambda>x. s\<lparr>udp_RainRateLast := x\<rparr>) (set_float v)
      else if k = ''rain_15_min'' then dec_map (\<lambda>x. s\<lparr>udp_RainLast15Min := x\<rparr>) (set_float v)
      else if k = ''rain_60_min'' then dec_map (\<lambda>x. s\<lparr>udp_RainLast60Min := x\<rparr>) (set_float v)
      else if k = ''rain_24_hr'' then dec_map (\<lambda>x. s\<lparr>udp_RainLast24Hour := x\<rparr>) (set_float v)
      else if k = ''rain_storm'' then dec_map (\<lambda>x. s\<lparr>udp_RainStorm := x\<rparr>) (set_float v)
      else if k = ''rain_storm_start_at'' then dec_map (\<lambda>x. s\<lparr>udp_RainStormStartAt := x\<rparr>) (set_time v)
      else if k = ''rainfall_daily'' then dec_map (\<lambda>x. s\<lparr>udp_RainfallDaily := x\<rparr>) (set_float v)
      else if k = ''rainfall_monthly'' then dec_map (\<lambda>x. s\<lparr>udp_RainfallMonthly := x\<rparr>) (set_float v)
      else if k = ''rainfall_year'' then dec_map (\<lambda>x. s\<lparr>udp_RainfallYear := x\<rparr>) (set_float v)
      else if k = ''wind_speed_hi_last_10_min'' then dec_map (\<lambda>x. s\<lparr>udp_WindSpeedHighLast10Min := x\<rparr>) (set_float v)
      else if k = ''wind_dir_at_hi_speed_last_10_min'' then dec_map (\<lambda>x. s\<lparr>udp_WindDirAtHighLast10Min := x\<rparr>) (set_float v)
      else Cont s None)"

definition ConditionsUDP_field :: "string \<Rightarrow> json \<Rightarrow> ConditionsUDP \<Rightarrow> ConditionsUDP dec" where
  "ConditionsUDP_field k v s =
     (if k = ''did'' then dec_map (\<lambda>x. s\<lparr>udp_DeviceID := x\<rparr>) (set_string (udp_DeviceID s) v)
      else if k = ''ts'' then dec_map (\<lambda>x. s\<lparr>udp_Timestamp := x\<rparr>) (set_time v)
      else if k = ''conditions'' then
        dec_map (\<lambda>x. s\<lparr>udp_Conditions := x\<rparr>)
          (decodeSlice (decodeStruct EntryUDP_field zeroEntryUDP) (udp_Conditions s) v)
      else Cont s None)"

definition zeroConditionsUDP :: ConditionsUDP where
  "zeroConditionsUDP = \<lparr>udp_DeviceID = '''', udp_Timestamp = None, udp_Conditions = []\<rparr>"

definition ParseUDP :: "json \<Rightarrow> ConditionsUDP result" where
  "ParseUDP payload = finish (decodeStruct ConditionsUDP_field zeroConditionsUDP payload)"

subsection \<open>The HTTP decoder (\<^verbatim>\<open>ParseHTTP\<close>, \<^verbatim>\<open>EntryHTTP.UnmarshalJSON\<close>)\<close>

definition conditionHeader_field ::
  "string \<Rightarrow> json \<Rightarrow> conditionHeader \<Rightarrow> conditionHeader dec" where
  "conditionHeader_field k v s =
     (if k = ''lsid'' then dec_map (\<lambda>x. s\<lparr>hdr_LogicalSensorID := x\<rparr>) (set_int v)
      else if k = ''data_structure_type'' then
        dec_map (\<lambda>x. s\<lparr>hdr_DataStructureType := x\<rparr>) (set_int v)
      else Cont s None)"

definition zeroHeader :: conditionHeader where
  "zeroHeader = \<lparr>hdr_LogicalSensorID = None, hdr_DataStructureType = None\<rparr>"

definition zeroWeatherISS :: WeatherISS where
  "zeroWeatherISS = \<lparr>iss_TransmitterID = None, iss_Temperature = None, iss_Humidity = None, iss_Dewpoint = None, iss_Wetbulb = None, iss_HeatIndex = None, iss_WindChill = None, iss_THWIndex = None, iss_THSWIndex = None, iss_WindSpeedLast = None, iss_WindDirLast = None, iss_WindSpeedAvgLast1Min = None, iss_WindDirAvgLast1Min = None, iss_WindSpeedAvgLast2Min = None, iss_WindDirAvgLast2Min = None, iss_WindSpeedHighLast2Min = None, iss_WindDirAtHighLast2Min = None, iss_WindSpeedAvgLast10Min = None, iss_WindDirAvgLast10Min = None, iss_WindSpeedHighLast10Min = None, iss_WindDirAtHighLast10Min = None, iss_RainSize = None, iss_RainRateLast = None, iss_RainRateHigh = None, iss_RainLast15Min = None, iss_RainRateHighLast15Min = None, iss_RainLast60Min = None, iss_RainLast24Hour = None, iss_RainStorm = None, iss_RainStormStartAt = None, iss_SolarRad = None, iss_UVIndex = None, iss_RXState = None, iss_TransBatteryFlag = None, iss_RainfallDaily = None, iss_RainfallMonthly = None, iss_RainfallYear = None, iss_RainStormLast = None, iss_RainStormLastStartAt = None, iss_RainStormLastEndAt = None\<rparr>"

definition WeatherISS_field :: "string \<Rightarrow> json \<Rightarrow> WeatherISS \<Rightarrow> WeatherISS dec" where
  "WeatherISS_field k v s =
     (if k = ''txid'' then dec_map (\<lambda>x. s\<lparr>iss_TransmitterID := x\<rparr>) (set_int v)
      else if k = ''temp'' then dec_map (\<lambda>x. s\<lparr>iss_Temperature := x\<rparr>) (set_float v)
      else if k = ''hum'' then dec_map (\<lambda>x. s\<lparr>iss_Humidity := x\<rparr>) (set_float v)
      else if k = ''dew_point'' then dec_map (\<lambda>x. s\<lparr>iss_Dewpoint := x\<rparr>) (set_float v)
      else if k = ''wet_bulb'' then dec_map (\<lambda>x. s\<lparr>iss_Wetbulb := x\<rparr>) (set_float v)
      else if k = ''heat_index'' then dec_map (\<lambda>x. s\<lparr>iss_HeatIndex := x\<rparr>) (set_float v)
      else if k = ''wind_chill'' then dec_map (\<lambda>x. s\<lparr>iss_WindChill := x\<rparr>) (set_float v)
      else if k = ''thw_index'' then dec_map (\<lambda>x. s\<lparr>iss_THWIndex := x\<rparr>) (set_float v)
      else if k = ''thsw_index'' then dec_map (\<lambda>x. s\<lparr>iss_THSWIndex := x\<rparr>) (set_float v)
      else if k = ''wind_speed_last'' then dec_map (\<lambda>x. s\<lparr>iss_WindSpeedLast := x\<rparr>) (set_float v)
      else if k = ''wind_dir_last'' then dec_map (\<lambda>x. s\<lparr>iss_WindDirLast := x\<rparr>) (set_float v)
      else if k = ''wind_speed_avg_last_1_min'' then dec_map (\<lambda>x. s\<lparr>iss_WindSpeedAvgLast1Min := x\<rparr>) (set_float v)
      else if k = ''wind_dir_scalar_avg_last_1_min'' then dec_map (\<lambda>x. s\<lparr>iss_WindDirAvgLast1Min := x\<rparr>) (set_float v)
      else if k = ''wind_speed_avg_last_2_min'' then dec_map (\<lambda>x. s\<lparr>iss_WindSpeedAvgLast2Min := x\<rparr>) (set_float v)
      else if k = ''wind_dir_scalar_avg_last_2_min'' then dec_map (\<lambda>x. s\<lparr>iss_WindDirAvgLast2Min := x\<rparr>) (set_float v)
      else if k = ''wind_speed_hi_last_2_min'' then dec_map (\<lambda>x. s\<lparr>iss_WindSpeedHighLast2Min := x\<rparr>) (set_float v)
      else if k = ''wind_dir_at_hi_speed_last_2_min'' then dec_map (\<lambda>x. s\<lparr>iss_WindDirAtHighLast2Min := x\<rparr>) (set_float v)
      else if k = ''wind_speed_avg_last_10_min'' then dec_map (\<lambda>x. s\<lparr>iss_WindSpeedAvgLast10Min := x\<rparr>) (set_float v)
      else if k = ''wind_dir_scalar_avg_last_10_min'' then dec_map (\<lambda>x. s\<lparr>iss_WindDirAvgLast10Min := x\<rparr>) (set_float v)
      else if k = ''wind_speed_hi_last_10_min'' then dec_map (\<lambda>x. s\<lparr>iss_WindSpeedHighLast10Min := x\<rparr>) (set_float v)
      else if k = ''wind_dir_at_hi_speed_last_10_min'' then dec_map (\<lambda>x. s\<lparr>iss_WindDirAtHighLast10Min := x\<rparr>) (set_float v)
      else if k = ''rain_size'' then dec_map (\<lambda>x. s\<lparr>iss_RainSize := x\<rparr>) (set_float v)
      else if k = ''rain_rate_last'' then dec_map (\<lambda>x. s\<lparr>iss_RainRateLast := x\<rparr>) (set_float v)
      else if k = ''rain_rate_hi'' then dec_map (\<lambda>x. s\<lparr>iss_RainRateHigh := x\<rparr>) (set_float v)
      else if k = ''rainfall_last_15_min'' then dec_map (\<lambda>x. s\<lparr>iss_RainLast15Min := x\<rparr>) (set_float v)
      else if k = ''rain_rate_hi_last_15_min'' then dec_map (\<lambda>x. s\<lparr>iss_RainRateHighLast15Min := x\<rparr>) (set_float v)
      else if k = ''rainfall_last_60_min'' then dec_map (\<lambda>x. s\<lparr>iss_RainLast60Min := x\<rparr>) (set_float v)
      else if k = ''rainfall_last_24_hr'' then dec_map (\<lambda>x. s\<lparr>iss_RainLast24Hour := x\<rparr>) (set_float v)
      else if k = ''rain_storm'' then dec_map (\<lambda>x. s\<lparr>iss_RainStorm := x\<rparr>) (set_float v)
      else if k = ''rain_storm_start_at'' then dec_map (\<lambda>x. s\<lparr>iss_RainStormStartAt := x\<rparr>) (set_time v)
      else if k = ''solar_rad'' then dec_map (\<lambda>x. s\<lparr>iss_SolarRad := x\<rparr>) (set_float v)
      else if k = ''uv_index'' then dec_map (\<lambda>x. s\<lparr>iss_UVIndex := x\<rparr>) (set_float v)
      else if k = ''rx_state'' then dec_map (\<lambda>x. s\<lparr>iss_RXState := x\<rparr>) (set_int v)
      else if k = ''trans_battery_flag'' then dec_map (\<lambda>x. s\<lparr>iss_TransBatteryFlag := x\<rparr>) (set_int v)
      else if k = ''rainfall_daily'' then dec_map (\<lambda>x. s\<lparr>iss_RainfallDaily := x\<rparr>) (set_float v)
      else if k = ''rainfall_monthly'' then dec_map (\<lambda>x. s\<lparr>iss_RainfallMonthly := x\<rparr>) (set_float v)
      else if k = ''rainfall_year'' then dec_map (\<lambda>x. s\<lparr>iss_RainfallYear := x\<rparr>) (set_float v)
      else if k = ''rain_storm_last'' then dec_map (\<lambda>x. s\<lparr>iss_RainStormLast := x\<rparr>) (set_float v)
      else if k = ''rain_storm_last_start_at'' then dec_map (\<lambda>x. s\<lparr>iss_RainStormLastStartAt := x\<rparr>) (set_time v)
      else if k = ''rain_storm_last_end_at'' then dec_map (\<lambda>x. s\<lparr>iss_RainStormLastEndAt := x\<rparr>) (set_time v)
      else Cont s None)"

definition zeroWeatherLSSBarometer :: WeatherLSSBarometer where
  "zeroWeatherLSSBarometer = \<lparr>lss_BarometerSeaLevel = None, lss_BarometerTrend = None, lss_BarometerAbsolute = None\<rparr>"

definition WeatherLSSBarometer_field :: "string \<Rightarrow> json \<Rightarrow> WeatherLSSBarometer \<Rightarrow> WeatherLSSBarometer dec" where
  "WeatherLSSBarometer_field k v s =
     (if k = ''bar_sea_level'' then dec_map (\<lambda>x. s\<lparr>lss_BarometerSeaLevel := x\<rparr>) (set_float v)
      else if k = ''bar_trend'' then dec_map (\<lambda>x. s\<lparr>lss_BarometerTrend := x\<rparr>) (set_float v)
      else if k = ''bar_absolute'' then dec_map (\<lambda>x. s\<lparr>lss_BarometerAbsolute := x\<rparr>) (set_float v)
      else Cont s None)"

definition zeroWeatherLSSTempRh :: WeatherLSSTempRh where
  "zeroWeatherLSSTempRh = \<lparr>lss_TemperatureIndoor = None, lss_HumidityIndoor = None, lss_DewPointIndoor = None, lss_HeatIndexIndoor = None\<rparr>"

definition WeatherLSSTempRh_field :: "string \<Rightarrow> json \<Rightarrow> WeatherLSSTempRh \<Rightarrow> WeatherLSSTempRh dec" where
  "WeatherLSSTempRh_field k v s =
     (if k = ''temp_in'' then dec_map (\<lambda>x. s\<lparr>lss_TemperatureIndoor := x\<rparr>) (set_float v)
      else if k = ''hum_in'' then dec_map (\<lambda>x. s\<lparr>lss_HumidityIndoor := x\<rparr>) (set_float v)
      else if k = ''dew_point_in'' then dec_map (\<lambda>x. s\<lparr>lss_DewPointIndoor := x\<rparr>) (set_float v)
      else if k = ''heat_index_in'' then dec_map (\<lambda>x. s\<lparr>lss_HeatIndexIndoor := x\<rparr>) (set_float v)
      else Cont s None)"


text \<open>
  \<^verbatim>\<open>EntryHTTP.UnmarshalJSON\<close>: decode the header; dereference the discriminator (a
  panic when it is nil); choose the shape of \<open>Values\<close> (nil for an unknown discriminator);
  decode the same payload into \<open>Values\<close>. \<^verbatim>\<open>json.Unmarshal\<close> with a nil target returns
  an \<^verbatim>\<open>InvalidUnmarshalError\<close>.
\<close>

definition EntryHTTP_UnmarshalJSON :: "json \<Rightarrow> EntryHTTP result" where
  "EntryHTTP_UnmarshalJSON payload =
     (case finish (decodeStruct conditionHeader_field zeroHeader payload) of
        Err err \<Rightarrow> Err err
      | Panicked \<Rightarrow> Panicked
      | Ok c \<Rightarrow>
          (case hdr_DataStructureType c of
             None \<Rightarrow> Panicked
           | Some t \<Rightarrow>
               (if t = RecordISS then
                  (case finish (decodeStruct WeatherISS_field zeroWeatherISS payload) of
                     Ok w \<Rightarrow> Ok \<lparr>LogicalSensorID = hdr_LogicalSensorID c,
                               DataStructureType = Some t, Values = ISSValues w\<rparr>
                   | Err err \<Rightarrow> Err err
                   | Panicked \<Rightarrow> Panicked)
                else if t = RecordLSSBarometer then
                  (case finish (decodeStruct WeatherLSSBarometer_field zeroWeatherLSSBarometer payload) of
                     Ok w \<Rightarrow> Ok \<lparr>LogicalSensorID = hdr_LogicalSensorID c,
                               DataStructureType = Some t, Values = BarometerValues w\<rparr>
                   | Err err \<Rightarrow> Err err
                   | Panicked \<Rightarrow> Panicked)
                else if t = RecordLSSTempRh then
                  (case finish (decodeStruct WeatherLSSTempRh_field zeroWeatherLSSTempRh payload) of
                     Ok w \<Rightarrow> Ok \<lparr>LogicalSensorID = hdr_LogicalSensorID c,
                               DataStructureType = Some t, Values = TempRhValues w\<rparr>
                   | Err err \<Rightarrow> Err err
                   | Panicked \<Rightarrow> Panicked)
                else Err InvalidUnmarshalError)))"

definition WeatherHTTP_field :: "string \<Rightarrow> json \<Rightarrow> WeatherHTTP \<Rightarrow> WeatherHTTP dec" where
  "WeatherHTTP_field k v s =
     (if k = ''did'' then dec_map (\<lambda>x. s\<lparr>http_DeviceID := x\<rparr>) (set_string (http_DeviceID s) v)
      else if k = ''ts'' then dec_map (\<lambda>x. s\<lparr>http_Timestamp := x\<rparr>) (set_time v)
      else if k = ''conditions'' then
        dec_map (\<lambda>x. s\<lparr>http_Conditions := x\<rparr>)
          (decodeSlice (\<lambda>x. from_unmarshaler (EntryHTTP_UnmarshalJSON x)) (http_Conditions s) v)
      else Cont s None)"

definition zeroWeatherHTTP :: WeatherHTTP where
  "zeroWeatherHTTP = \<lparr>http_DeviceID = '''', http_Timestamp = None, http_Conditions = []\<rparr>"

definition ConditionsHTTP_field :: "string \<Rightarrow> json \<Rightarrow> ConditionsHTTP \<Rightarrow> ConditionsHTTP dec" where
  "ConditionsHTTP_field k v s =
     (if k = ''data'' then
        dec_map (\<lambda>x. s\<lparr>http_Data := x\<rparr>) (decodePtr WeatherHTTP_field zeroWeatherHTTP v)
      else if k = ''error'' then
        dec_map (\<lambda>x. s\<lparr>http_Error := x\<rparr>) (decodePtr Error_field zeroError v)
      else Cont s None)"

definition ParseHTTP :: "json \<Rightarrow> ConditionsHTTP result" where
  "ParseHTTP data =
     finish (decodeStruct ConditionsHTTP_field \<lparr>http_Data = None, http_Error = None\<rparr> data)"


section \<open>The report (report.go)\<close>

text \<open>
  The exported fields of \<^verbatim>\<open>Report\<close>, all of which carry a JSON tag, form the record
  \<open>ReportJSON\<close>; the unexported bookkeeping fields extend it. \<^verbatim>\<open>json.Marshal\<close> of a
  Report emits exactly the exported fields, so the serialized bytes are represented by
  the field values they encode.
\<close>

record ReportJSON =
  DeviceID :: string
  Timestamp :: time
  Temperature :: "float64 option"
  Humidity :: "float64 option"
  Dewpoint :: "float64 option"
  Wetbulb :: "float64 option"
  HeatIndex :: "float64 option"
  WindChill :: "float64 option"
  THWIndex :: "float64 option"
  THSWIndex :: "float64 option"
  WindSpeedLast :: "float64 option"
  WindDirLast :: "float64 option"
  WindSpeedAvgLast1Min :: "float64 option"
  WindDirAvgLast1Min :: "float64 option"
  WindSpeedAvgLast2Min :: "float64 option"
  WindDirAvgLast2Min :: "float64 option"
  WindSpeedHighLast2Min :: "float64 option"
  WindDirAtHighLast2Min :: "float64 option"
  WindSpeedAvgLast10Min :: "float64 option"
  WindDirAvgLast10Min :: "float64 option"
  WindSpeedHighLast10Min :: "float64 option"
  WindDirAtHighLast10Min :: "float64 option"
  RainSize :: "float64 option"
  RainRateLast :: "float64 option"
  RainRateHigh :: "float64 option"
  RainLast15Min :: "float64 option"
  RainRateHighLast15Min :: "float64 option"
  RainLast60Min :: "float64 option"
  RainLast24Hour :: "float64 option"
  RainStorm :: "float64 option"
  RainStormStartAt :: "time option"
  SolarRad :: "float64 option"
  UVIndex :: "float64 option"
  RXState :: string
  TransBatteryFlag :: string
  RainfallDaily :: "float64 option"
  RainfallMonthly :: "float64 option"
  RainfallYear :: "float64 option"
  RainStormLast :: "float64 option"
  RainStormLastStartAt :: "time option"
  RainStormLastEndAt :: "time option"
  BarometerSeaLevel :: "float64 option"
  BarometerTrend :: "float64 option"
  BarometerAbsolute :: "float64 option"
  TemperatureIndoor :: "float64 option"
  HumidityIndoor :: "float64 option"
  DewPointIndoor :: "float64 option"
  HeatIndexIndoor :: "float64 option"

text \<open>
  Byte strings, as far as the report distinguishes them: nil (or empty); the JSON text
  of a Report; a zlib stream around a byte string; anything else. The hex MD5 digest of
  a byte string is kept symbolic (distinct byte strings have distinct digests, which
  leaves hash collisions out); the checksum of a fresh Report is the empty string.
\<close>

datatype bytes = NilBytes | ReportBytes ReportJSON | ZlibBytes bytes | OtherBytes

datatype digest = EmptyString | MD5Hex bytes

text \<open>The notification channel \<^verbatim>\<open>make(chan bool, 1)\<close> is the number of values waiting
  in its buffer. The mutex is not modelled: every operation below is one atomic step.\<close>

record Report = ReportJSON +
  notify :: nat
  verbose :: bool
  lastChecksum :: digest
  lastBytes :: bytes

definition notifyCap :: nat where
  "notifyCap = 1"

datatype outcome = Success | Failure go_error | Panic

definition NewReport :: "bool \<Rightarrow> Report" where
  "NewReport vb =
     \<lparr>DeviceID = '''',
        Timestamp = zeroTime,
        Temperature = None,
        Humidity = None,
        Dewpoint = None,
        Wetbulb = None,
        HeatIndex = None,
        WindChill = None,
        THWIndex = None,
        THSWIndex = None,
        WindSpeedLast = None,
        WindDirLast = None,
        WindSpeedAvgLast1Min = None,
        WindDirAvgLast1Min = None,
        WindSpeedAvgLast2Min = None,
        WindDirAvgLast2Min = None,
        WindSpeedHighLast2Min = None,
        WindDirAtHighLast2Min = None,
        WindSpeedAvgLast10Min = None,
        WindDirAvgLast10Min = None,
        WindSpeedHighLast10Min = None,
        WindDirAtHighLast10Min = None,
        RainSize = None,
        RainRateLast = None,
        RainRateHigh = None,
        RainLast15Min = None,
        RainRateHighLast15Min = None,
        RainLast60Min = None,
        RainLast24Hour = None,
        RainStorm = None,
        RainStormStartAt = None,
        SolarRad = None,
        UVIndex = None,
        RXState = '''',
        TransBatteryFlag = '''',
        RainfallDaily = None,
        RainfallMonthly = None,
        RainfallYear = None,
        RainStormLast = None,
        RainStormLastStartAt = None,
        RainStormLastEndAt = None,
        BarometerSeaLevel = None,
        BarometerTrend = None,
        BarometerAbsolute = None,
        TemperatureIndoor = None,
        HumidityIndoor = None,
        DewPointIndoor = None,
        HeatIndexIndoor = None,
        notify = 0,
        verbose = vb,
        lastChecksum = EmptyString,
        lastBytes = NilBytes\<rparr>"

text \<open>
  \<^verbatim>\<open>json.Marshal\<close> of a Report fails when one of its instants cannot be written as an
  RFC 3339 string: \<^verbatim>\<open>Time.MarshalJSON\<close> refuses a year outside 0 to 9999. The year is
  read in UTC here (a local zone shifts the two bounds by its offset). The decoders
  produce such instants, since \<^verbatim>\<open>Time.UnmarshalJSON\<close> accepts every 64-bit number of
  seconds. Floats are finite: the decoders produce no others.
\<close>

definition marshalableTime :: "time \<Rightarrow> bool" where
  "marshalableTime t =
     (- 62167219200 * 1000000000 \<le> t \<and> t < 253402300800 * 1000000000)"

definition marshalableOpt :: "time option \<Rightarrow> bool" where
  "marshalableOpt p = (case p of None \<Rightarrow> True | Some t \<Rightarrow> marshalableTime t)"

definition serializable :: "'a ReportJSON_scheme \<Rightarrow> bool" where
  "serializable r =
     (marshalableTime (Timestamp r) \<and> marshalableOpt (RainStormStartAt r) \<and>
      marshalableOpt (RainStormLastStartAt r) \<and> marshalableOpt (RainStormLastEndAt r))"

definition json_Marshal :: "Report \<Rightarrow> go_error + bytes" where
  "json_Marshal r =
     (if serializable r then Inr (ReportBytes (ReportJSON.truncate r)) else Inl MarshalerError)"

text \<open>A JSON text holds only instants of years 0 to 9999, so \<open>ReportBytes n\<close> stands
  for a JSON text only when \<open>n\<close> is serializable.\<close>

definition json_Unmarshal :: "bytes \<Rightarrow> go_error + ReportJSON" where
  "json_Unmarshal payload =
     (case payload of
        ReportBytes n \<Rightarrow> (if serializable n then Inr n else Inl SyntaxError)
      | _ \<Rightarrow> Inl SyntaxError)"

definition checksum :: "Report \<Rightarrow> go_error + (digest \<times> bytes)" where
  "checksum r =
     (case json_Marshal r of
        Inl err \<Rightarrow> Inl err
      | Inr buff \<Rightarrow> Inr (MD5Hex buff, buff))"

text \<open>The non-blocking send \<^verbatim>\<open>select { case r.notify <- true: default: }\<close>.\<close>

definition trySend :: "Report \<Rightarrow> Report" where
  "trySend r = (if notify r < notifyCap then r\<lparr>notify := notify r + 1\<rparr> else r)"

definition updateHook :: "UpdateMethod \<Rightarrow> time \<Rightarrow> Report \<Rightarrow> outcome \<times> Report" where
  "updateHook method timestamp r =
     (case checksum r of
        Inl err \<Rightarrow> (Failure err, r)
      | Inr (newChecksum, _) \<Rightarrow>
          if RXState r = '''' \<or> TransBatteryFlag r = '''' then (Success, r)
          else if newChecksum \<noteq> lastChecksum r then
            (let r1 = r\<lparr>Timestamp := timestamp\<rparr>;
                 r2 = (case checksum r1 of
                         Inl _ \<Rightarrow> r1\<lparr>lastChecksum := EmptyString, lastBytes := NilBytes\<rparr>
                       | Inr (c, b) \<Rightarrow> r1\<lparr>lastChecksum := c, lastBytes := b\<rparr>)
             in (Success, trySend r2))
          else (Success, r))"

definition processISS :: "WeatherISS \<Rightarrow> Report \<Rightarrow> Report" where
  "processISS v r =
     r\<lparr>Temperature := iss_Temperature v,
        Humidity := iss_Humidity v,
        Dewpoint := iss_Dewpoint v,
        Wetbulb := iss_Wetbulb v,
        HeatIndex := iss_HeatIndex v,
        WindChill := iss_WindChill v,
        THWIndex := iss_THWIndex v,
        THSWIndex := iss_THSWIndex v,
        WindSpeedLast := iss_WindSpeedLast v,
        WindDirLast := iss_WindDirLast v,
        WindSpeedAvgLast1Min := iss_WindSpeedAvgLast1Min v,
        WindDirAvgLast1Min := iss_WindDirAvgLast1Min v,
        WindSpeedAvgLast2Min := iss_WindSpeedAvgLast2Min v,
        WindDirAvgLast2Min := iss_WindDirAvgLast2Min v,
        WindSpeedHighLast2Min := iss_WindSpeedHighLast2Min v,
        WindDirAtHighLast2Min := iss_WindDirAtHighLast2Min v,
        WindSpeedAvgLast10Min := iss_WindSpeedAvgLast10Min v,
        WindDirAvgLast10Min := iss_WindDirAvgLast10Min v,
        WindSpeedHighLast10Min := iss_WindSpeedHighLast10Min v,
        WindDirAtHighLast10Min := iss_WindDirAtHighLast10Min v,
        RainSize := iss_RainSize v,
        RainRateLast := iss_RainRateLast v,
        RainRateHigh := iss_RainRateHigh v,
        RainLast15Min := iss_RainLast15Min v,
        RainRateHighLast15Min := iss_RainRateHighLast15Min v,
        RainLast60Min := iss_RainLast60Min v,
        RainLast24Hour := iss_RainLast24Hour v,
        RainStorm := iss_RainStorm v,
        RainStormStartAt := (case iss_RainStormStartAt v of None \<Rightarrow> RainStormStartAt r | Some t \<Rightarrow> Some t),
        SolarRad := iss_SolarRad v,
        UVIndex := iss_UVIndex v,
        RXState := (case iss_RXState v of None \<Rightarrow> RXState r
           | Some s \<Rightarrow>
               if s = SignalSynced then ''Synced''
               else if s = SignalRescan then ''Rescan''
               else if s = SignalLost then ''Lost''
               else RXState r),
        TransBatteryFlag := (case iss_TransBatteryFlag v of None \<Rightarrow> TransBatteryFlag r
           | Some b \<Rightarrow>
               if b = BatteryNominal then ''Nominal''
               else if b = BatteryWarning then ''Warning''
               else TransBatteryFlag r),
        RainfallDaily := iss_RainfallDaily v,
        RainfallMonthly := iss_RainfallMonthly v,
        RainfallYear := iss_RainfallYear v,
        RainStormLast := iss_RainStormLast v,
        RainStormLastStartAt := (case iss_RainStormLastStartAt v of None \<Rightarrow> RainStormLastStartAt r | Some t \<Rightarrow> Some t),
        RainStormLastEndAt := (case iss_RainStormLastEndAt v of None \<Rightarrow> RainStormLastEndAt r | Some t \<Rightarrow> Some t)\<rparr>"

definition processLSSBarometer :: "WeatherLSSBarometer \<Rightarrow> Report \<Rightarrow> Report" where
  "processLSSBarometer v r =
     r\<lparr>BarometerSeaLevel := lss_BarometerSeaLevel v,
        BarometerTrend := lss_BarometerTrend v,
        BarometerAbsolute := lss_BarometerAbsolute v\<rparr>"

definition processLSSTempRh :: "WeatherLSSTempRh \<Rightarrow> Report \<Rightarrow> Report" where
  "processLSSTempRh v r =
     r\<lparr>TemperatureIndoor := lss_TemperatureIndoor v,
        HumidityIndoor := lss_HumidityIndoor v,
        DewPointIndoor := lss_DewPointIndoor v,
        HeatIndexIndoor := lss_HeatIndexIndoor v\<rparr>"

text \<open>
  The loop of \<^verbatim>\<open>UpdateHTTP\<close> over the conditions. Dereferencing a nil discriminator
  panics, and so does the type assertion on \<open>Values\<close> when it does not hold the shape the
  discriminator names; a discriminator outside the three known ones is skipped. On a
  panic the report is returned as it was at that moment. (A typed nil pointer inside
  \<open>Values\<close>, which the decoder never produces, is not distinguished from nil.)
\<close>

fun processConditions :: "EntryHTTP list \<Rightarrow> Report \<Rightarrow> outcome \<times> Report" where
  "processConditions [] r = (Success, r)"
| "processConditions (c # cs) r =
     (case DataStructureType c of
        None \<Rightarrow> (Panic, r)
      | Some structure \<Rightarrow>
          if structure = RecordISS then
            (case Values c of
               ISSValues v \<Rightarrow> processConditions cs (processISS v r)
             | _ \<Rightarrow> (Panic, r))
          else if structure = RecordLSSBarometer then
            (case Values c of
               BarometerValues v \<Rightarrow> processConditions cs (processLSSBarometer v r)
             | _ \<Rightarrow> (Panic, r))
          else if structure = RecordLSSTempRh then
            (case Values c of
               TempRhValues v \<Rightarrow> processConditions cs (processLSSTempRh v r)
             | _ \<Rightarrow> (Panic, r))
          else processConditions cs r)"

definition UpdateHTTP :: "ConditionsHTTP \<Rightarrow> Report \<Rightarrow> outcome \<times> Report" where
  "UpdateHTTP new r =
     (case http_Error new of
        Some e \<Rightarrow> (Failure (ErrorMessage (Message e)), r)
      | None \<Rightarrow>
          (case http_Data new of
             None \<Rightarrow> (Panic, r)
           | Some d \<Rightarrow>
               (case processConditions (http_Conditions d) (r\<lparr>DeviceID := http_DeviceID d\<rparr>) of
                  (Success, r') \<Rightarrow>
                    (case http_Timestamp d of
                       None \<Rightarrow> (Panic, r')
                     | Some ts \<Rightarrow> updateHook MethodHTTP ts r')
                | (out, r') \<Rightarrow> (out, r'))))"

definition applyEntryUDP :: "Report \<Rightarrow> EntryUDP \<Rightarrow> Report" where
  "applyEntryUDP r c =
     r\<lparr>WindSpeedLast := udp_WindSpeedLast c,
        WindDirLast := udp_WindDirLast c,
        RainSize := udp_RainSize c,
        RainRateLast := udp_RainRateLast c,
        RainLast15Min := udp_RainLast15Min c,
        RainLast60Min := udp_RainLast60Min c,
        RainLast24Hour := udp_RainLast24Hour c,
        RainStorm := udp_RainStorm c,
        RainStormStartAt := (case udp_RainStormStartAt c of None \<Rightarrow> RainStormStartAt r | Some t \<Rightarrow> Some t),
        RainfallDaily := udp_RainfallDaily c,
        RainfallMonthly := udp_RainfallMonthly c,
        RainfallYear := udp_RainfallYear c,
        WindSpeedHighLast10Min := udp_WindSpeedHighLast10Min c,
        WindDirAtHighLast10Min := udp_WindDirAtHighLast10Min c\<rparr>"

definition UpdateUDP :: "ConditionsUDP \<Rightarrow> Report \<Rightarrow> outcome \<times> Report" where
  "UpdateUDP new r =
     (let r' = foldl applyEntryUDP (r\<lparr>DeviceID := udp_DeviceID new\<rparr>) (udp_Conditions new)
      in case udp_Timestamp new of
           None \<Rightarrow> (Panic, r')
         | Some ts \<Rightarrow> updateHook MethodUDP ts r')"

text \<open>\<^verbatim>\<open>UpdateJSON\<close>: the second argument is the value of \<^verbatim>\<open>time.Now()\<close>. The
  assignments copy every exported field of the decoded Report except \<open>Timestamp\<close>.\<close>

definition syncFields :: "ReportJSON \<Rightarrow> Report \<Rightarrow> Report" where
  "syncFields n r =
     r\<lparr>DeviceID := DeviceID n,
        Temperature := Temperature n,
        Humidity := Humidity n,
        Dewpoint := Dewpoint n,
        Wetbulb := Wetbulb n,
        HeatIndex := HeatIndex n,
        WindChill := WindChill n,
        THWIndex := THWIndex n,
        THSWIndex := THSWIndex n,
        WindSpeedLast := WindSpeedLast n,
        WindDirLast := WindDirLast n,
        WindSpeedAvgLast1Min := WindSpeedAvgLast1Min n,
        WindDirAvgLast1Min := WindDirAvgLast1Min n,
        WindSpeedAvgLast2Min := WindSpeedAvgLast2Min n,
        WindDirAvgLast2Min := WindDirAvgLast2Min n,
        WindSpeedHighLast2Min := WindSpeedHighLast2Min n,
        WindDirAtHighLast2Min := WindDirAtHighLast2Min n,
        WindSpeedAvgLast10Min := WindSpeedAvgLast10Min n,
        WindDirAvgLast10Min := WindDirAvgLast10Min n,
        WindSpeedHighLast10Min := WindSpeedHighLast10Min n,
        WindDirAtHighLast10Min := WindDirAtHighLast10Min n,
        RainSize := RainSize n,
        RainRateLast := RainRateLast n,
        RainRateHigh := RainRateHigh n,
        RainLast15Min := RainLast15Min n,
        RainRateHighLast15Min := RainRateHighLast15Min n,
        RainLast60Min := RainLast60Min n,
        RainLast24Hour := RainLast24Hour n,
        RainStorm := RainStorm n,
        RainStormStartAt := RainStormStartAt n,
        SolarRad := SolarRad n,
        UVIndex := UVIndex n,
        RXState := RXState n,
        TransBatteryFlag := TransBatteryFlag n,
        RainfallDaily := RainfallDaily n,
        RainfallMonthly := RainfallMonthly n,
        RainfallYear := RainfallYear n,
        RainStormLast := RainStormLast n,
        RainStormLastStartAt := RainStormLastStartAt n,
        RainStormLastEndAt := RainStormLastEndAt n,
        BarometerSeaLevel := BarometerSeaLevel n,
        BarometerTrend := BarometerTrend n,
        BarometerAbsolute := BarometerAbsolute n,
        TemperatureIndoor := TemperatureIndoor n,
        HumidityIndoor := HumidityIndoor n,
        DewPointIndoor := DewPointIndoor n,
        HeatIndexIndoor := HeatIndexIndoor n\<rparr>"

definition UpdateJSON :: "bytes \<Rightarrow> time \<Rightarrow> Report \<Rightarrow> outcome \<times> Report" where
  "UpdateJSON payload now r =
     (case json_Unmarshal payload of
        Inl err \<Rightarrow> (Failure err, r)
      | Inr n \<Rightarrow> updateHook MethodJSON now (syncFields n r))"

definition Copy :: "Report \<Rightarrow> go_error + Report" where
  "Copy r =
     (case json_Marshal r of
        Inl err \<Rightarrow> Inl err
      | Inr buff \<Rightarrow>
          (case json_Unmarshal buff of
             Inl err \<Rightarrow> Inl err
           | Inr n \<Rightarrow>
               Inr (ReportJSON.extend n
                      (Report.fields 0 (verbose r) (lastChecksum r) (lastBytes r)))))"

definition JSON :: "Report \<Rightarrow> bytes" where
  "JSON r = lastBytes r"

definition Encode :: "Report \<Rightarrow> bytes" where
  "Encode r = ZlibBytes (lastBytes r)"

definition Decode :: "bytes \<Rightarrow> time \<Rightarrow> Report \<Rightarrow> outcome \<times> Report" where
  "Decode payload now r =
     (case payload of
        ZlibBytes report \<Rightarrow> UpdateJSON report now r
      | _ \<Rightarrow> (Failure ZlibError, r))"


section \<open>The client and the UDP watchdog\<close>

text \<open>
  Of the network description of the unit only the fields the client fills are kept.
  \<^verbatim>\<open>net.ParseIP\<close> is a parameter of \<open>Unmanaged\<close>. The goroutines a constructor starts
  are not part of the value it returns.
\<close>

datatype IP = IPv4 string | IPv6 string

definition To4 :: "IP \<Rightarrow> bool" where
  "To4 ip = (case ip of IPv4 _ \<Rightarrow> True | IPv6 _ \<Rightarrow> False)"

record wllUnit =
  HostName :: string
  unit_Port :: int
  AddrIPv4 :: "IP list"
  AddrIPv6 :: "IP list"

record Client =
  report :: Report
  client_verbose :: bool
  client_unit :: "wllUnit option"
  udpPort :: int
  udpLastReported :: time

definition clientDefaultPort :: int where
  "clientDefaultPort = 80"

definition Managed :: "bool \<Rightarrow> Client" where
  "Managed vb =
     \<lparr>report = NewReport vb, client_verbose = vb, client_unit = None,
      udpPort = 0, udpLastReported = zeroTime\<rparr>"

definition Unmanaged ::
  "(string \<Rightarrow> IP option) \<Rightarrow> bool \<Rightarrow> string \<Rightarrow> int \<Rightarrow> go_error + Client" where
  "Unmanaged parseIP vb hostname port =
     (if hostname = '''' then Inl errInvalidHostname
      else
        (let port' = (if port \<le> 0 then clientDefaultPort else port);
             u = (case parseIP hostname of
                    None \<Rightarrow>
                      \<lparr>HostName = hostname, unit_Port = port', AddrIPv4 = [], AddrIPv6 = []\<rparr>
                  | Some ip \<Rightarrow>
                      if To4 ip then
                        \<lparr>HostName = hostname, unit_Port = port', AddrIPv4 = [ip], AddrIPv6 = []\<rparr>
                      else
                        \<lparr>HostName = ''['' @ hostname @ '']'', unit_Port = port',
                         AddrIPv4 = [], AddrIPv6 = [ip]\<rparr>)
         in Inr \<lparr>report = NewReport vb, client_verbose = vb, client_unit = Some u,
                 udpPort = 0, udpLastReported = zeroTime\<rparr>))"

definition Client_Report :: "Client \<Rightarrow> go_error + Report" where
  "Client_Report c = Copy (report c)"

text \<open>
  \<^verbatim>\<open>fetchBroadcastResponse\<close> builds the URL from the unit (a nil unit makes \<^verbatim>\<open>GetURL\<close>
  panic), performs one HTTP request, parses the body and turns an error indicator of
  the reply into an error. The argument \<open>reply\<close> is what the request yields: an error
  (the transport failed, or the body is not a JSON text) or the JSON document of the
  body. Parsing a reply cannot panic: none of its fields has an \<^verbatim>\<open>UnmarshalJSON\<close>.
\<close>

definition fetchBroadcastResponse :: "go_error + json \<Rightarrow> Client \<Rightarrow> BroadcastResponse result" where
  "fetchBroadcastResponse reply c =
     (case client_unit c of
        None \<Rightarrow> Panicked
      | Some u \<Rightarrow>
          (case reply of
             Inl err \<Rightarrow> Err err
           | Inr body \<Rightarrow>
               (case ParseBroadcastResponse body of
                  Err err \<Rightarrow> Err err
                | Panicked \<Rightarrow> Panicked
                | Ok broadcastResp \<Rightarrow>
                    (case br_Error broadcastResp of
                       Some e \<Rightarrow> Err (ErrorMessage (Message e))
                     | None \<Rightarrow> Ok broadcastResp))))"

text \<open>
  One pass through the body of the loop of \<^verbatim>\<open>udpWatchdog\<close>, up to its \<^verbatim>\<open>select\<close>.
  The arguments are the value of \<^verbatim>\<open>time.Now()\<close> and what the HTTP request yields if
  it is made. The calls made are recorded in order: a lease request (the HTTP request
  of \<^verbatim>\<open>fetchBroadcastResponse\<close>) and the \<^verbatim>\<open>resolved\<close> function. Durations are in
  nanoseconds.
\<close>

definition udpDeadline :: int where
  "udpDeadline = 15 * 1000000000"

datatype effect = LeaseRequest | PortResolved

definition udpWatchdogTick ::
  "time \<Rightarrow> go_error + json \<Rightarrow> Client \<Rightarrow> outcome \<times> Client \<times> effect list" where
  "udpWatchdogTick now reply c =
     (let delta = now - udpLastReported c in
      if delta > udpDeadline then
        (if client_unit c = None then (Panic, c, [])
         else
           (case fetchBroadcastResponse reply c of
              Panicked \<Rightarrow> (Panic, c, [LeaseRequest])
            | Err err \<Rightarrow> (Success, c, [LeaseRequest])
            | Ok broadcast \<Rightarrow>
                (case br_ConnInfo broadcast of
                   None \<Rightarrow> (Panic, c, [LeaseRequest])
                 | Some info \<Rightarrow>
                     (let previousPort = udpPort c;
                          c' = c\<lparr>udpPort := Port info\<rparr>
                      in (Success, c',
                          if previousPort = 0 then [LeaseRequest, PortResolved]
                          else [LeaseRequest])))))
      else (Success, c, []))"

section \<open>Sequences of merges and sample inputs\<close>

text \<open>A Report is ready to notify once both receiver-health fields are set: the
  negation of the test that makes \<open>updateHook\<close> return early.\<close>

definition ready :: "Report \<Rightarrow> bool" where
  "ready r = (\<not> (RXState r = '''' \<or> TransBatteryFlag r = ''''))"

text \<open>The push messages of a run, merged one after the other, as \<^verbatim>\<open>udpEventLoop\<close> does
  with the datagrams it decodes.\<close>

fun feedUDP :: "ConditionsUDP list \<Rightarrow> Report \<Rightarrow> outcome list \<times> Report" where
  "feedUDP [] r = ([], r)"
| "feedUDP (u # us) r =
     (case UpdateUDP u r of
        (out, r') \<Rightarrow> (case feedUDP us r' of (outs, r'') \<Rightarrow> (out # outs, r'')))"

text \<open>The two merge entry points under one name.\<close>

datatype merge = Pull ConditionsHTTP | Push ConditionsUDP

fun applyMerge :: "merge \<Rightarrow> Report \<Rightarrow> outcome \<times> Report" where
  "applyMerge (Pull c) r = UpdateHTTP c r"
| "applyMerge (Push u) r = UpdateUDP u r"

text \<open>Sample inputs: a pull record set with device id X, signal synced, battery
  nominal and temperature 72; push records that set the wind speed; and the reports
  they lead to from a fresh one.\<close>

definition sampleISS :: WeatherISS where
  "sampleISS =
     zeroWeatherISS\<lparr>iss_Temperature := Some 72, iss_RXState := Some SignalSynced,
                    iss_TransBatteryFlag := Some BatteryNominal\<rparr>"

definition samplePull :: ConditionsHTTP where
  "samplePull =
     \<lparr>http_Data = Some
        \<lparr>http_DeviceID = ''X'', http_Timestamp = Some (time_Unix 1600000000),
         http_Conditions =
           [\<lparr>LogicalSensorID = Some 1, DataStructureType = Some RecordISS,
             Values = ISSValues sampleISS\<rparr>]\<rparr>,
      http_Error = None\<rparr>"

definition samplePush :: "real \<Rightarrow> int \<Rightarrow> ConditionsUDP" where
  "samplePush wind sec =
     \<lparr>udp_DeviceID = ''X'', udp_Timestamp = Some (time_Unix sec),
      udp_Conditions = [zeroEntryUDP\<lparr>udp_WindSpeedLast := Some wind\<rparr>]\<rparr>"

definition pushWithoutTimestamp :: ConditionsUDP where
  "pushWithoutTimestamp =
     \<lparr>udp_DeviceID = ''X'', udp_Timestamp = None,
      udp_Conditions = [zeroEntryUDP\<lparr>udp_WindSpeedLast := Some 5\<rparr>]\<rparr>"

definition sampleReport :: Report where
  "sampleReport = snd (UpdateHTTP samplePull (NewReport False))"

definition sampleError :: ConditionsHTTP where
  "sampleError = \<lparr>http_Data = None, http_Error = Some \<lparr>Code = 409, Message = ''busy''\<rparr>\<rparr>"

text \<open>Inputs with an instant beyond year 9999: a push record with such a storm start,
  a pull record set with such a timestamp.\<close>

definition farPush :: ConditionsUDP where
  "farPush =
     \<lparr>udp_DeviceID = ''X'', udp_Timestamp = Some (time_Unix 1600000003),
      udp_Conditions = [zeroEntryUDP\<lparr>udp_RainStormStartAt := Some (time_Unix 300000000000)\<rparr>]\<rparr>"

definition farPull :: ConditionsHTTP where
  "farPull =
     \<lparr>http_Data = Some
        \<lparr>http_DeviceID = ''X'', http_Timestamp = Some (time_Unix 300000000000),
         http_Conditions =
           [\<lparr>LogicalSensorID = Some 1, DataStructureType = Some RecordISS,
             Values = ISSValues sampleISS\<rparr>]\<rparr>,
      http_Error = None\<rparr>"


definition stalePayload :: bytes where
  "stalePayload =
     ReportBytes ((ReportJSON.truncate sampleReport)
       \<lparr>Temperature := Some 50, RXState := '''', TransBatteryFlag := ''''\<rparr>)"

definition staleReport :: Report where
  "staleReport = snd (UpdateJSON stalePayload (time_Unix 1600000050) sampleReport)"

text \<open>An unmanaged client, and two replies to its lease request: one with the
  broadcast parameters, one without.\<close>

definition sampleClient :: Client where
  "sampleClient =
     \<lparr>report = NewReport False, client_verbose = False,
      client_unit = Some \<lparr>HostName = ''wll.local'', unit_Port = 80, AddrIPv4 = [], AddrIPv6 = []\<rparr>,
      udpPort = 0, udpLastReported = zeroTime\<rparr>"

definition leaseReply :: json where
  "leaseReply =
     JObj [(''data'', JObj [(''broadcast_port'', JInt 22222), (''duration'', JInt 14400)]),
           (''error'', JNull)]"

definition emptyReply :: json where
  "emptyReply = JObj [(''data'', JNull), (''error'', JNull)]"

text \<open>The fields that a push merge may not touch.\<close>

definition push_frame :: "Report \<Rightarrow> Report \<Rightarrow> bool" where
  "push_frame r r' =
    (Temperature r' = Temperature r \<and>
     Humidity r' = Humidity r \<and>
     Dewpoint r' = Dewpoint r \<and>
     Wetbulb r' = Wetbulb r \<and>
     HeatIndex r' = HeatIndex r \<and>
     WindChill r' = WindChill r \<and>
     THWIndex r' = THWIndex r \<and>
     THSWIndex r' = THSWIndex r \<and>
     WindSpeedAvgLast1Min r' = WindSpeedAvgLast1Min r \<and>
     WindDirAvgLast1Min r' = WindDirAvgLast1Min r \<and>
     WindSpeedAvgLast2Min r' = WindSpeedAvgLast2Min r \<and>
     WindDirAvgLast2Min r' = WindDirAvgLast2Min r \<and>
     WindSpeedHighLast2Min r' = WindSpeedHighLast2Min r \<and>
     WindDirAtHighLast2Min r' = WindDirAtHighLast2Min r \<and>
     WindSpeedAvgLast10Min r' = WindSpeedAvgLast10Min r \<and>
     WindDirAvgLast10Min r' = WindDirAvgLast10Min r \<and>
     RainRateHigh r' = RainRateHigh r \<and>
     RainRateHighLast15Min r' = RainRateHighLast15Min r \<and>
     SolarRad r' = SolarRad r \<and>
     UVIndex r' = UVIndex r \<and>
     RXState r' = RXState r \<and>
     TransBatteryFlag r' = TransBatteryFlag r \<and>
     RainStormLast r' = RainStormLast r \<and>
     RainStormLastStartAt r' = RainStormLastStartAt r \<and>
     RainStormLastEndAt r' = RainStormLastEndAt r \<and>
     BarometerSeaLevel r' = BarometerSeaLevel r \<and>
     BarometerTrend r' = BarometerTrend r \<and>
     BarometerAbsolute r' = BarometerAbsolute r \<and>
     TemperatureIndoor r' = TemperatureIndoor r \<and>
     HumidityIndoor r' = HumidityIndoor r \<and>
     DewPointIndoor r' = DewPointIndoor r \<and>
     HeatIndexIndoor r' = HeatIndexIndoor r \<and>
     verbose r' = verbose r)"

text \<open>The stored checksum is the checksum of the Report's current content.\<close>

definition inSync :: "Report \<Rightarrow> bool" where
  "inSync r = (lastChecksum r = MD5Hex (ReportBytes (ReportJSON.truncate r)))"

text \<open>
  The content that a merge has written into the Report when it reaches the finalize
  step: the assignments of \<open>UpdateUDP\<close> or \<open>UpdateHTTP\<close> applied to the Report. A merge
  is content-changing when the checksum of that content differs from the stored
  checksum, which is the change test of the finalize step.
\<close>

fun mergedContent :: "merge \<Rightarrow> Report \<Rightarrow> ReportJSON" where
  "mergedContent (Push u) r =
     ReportJSON.truncate (foldl applyEntryUDP (r\<lparr>DeviceID := udp_DeviceID u\<rparr>) (udp_Conditions u))"
| "mergedContent (Pull c) r =
     (case http_Data c of
        None \<Rightarrow> ReportJSON.truncate r
      | Some d \<Rightarrow>
          ReportJSON.truncate
            (snd (processConditions (http_Conditions d) (r\<lparr>DeviceID := http_DeviceID d\<rparr>))))"

definition contentChanging :: "merge \<Rightarrow> Report \<Rightarrow> bool" where
  "contentChanging m r = (MD5Hex (ReportBytes (mergedContent m r)) \<noteq> lastChecksum r)"

text \<open>What one entry of a pull record set does to the Report in the loop of
  \<open>UpdateHTTP\<close>, if it does not panic; and the property of a field that a step either
  keeps it or sets it to a value that does not depend on the Report.\<close>

definition entry_effect :: "EntryHTTP \<Rightarrow> (Report \<Rightarrow> Report) option" where
  "entry_effect c =
     (case DataStructureType c of
        None \<Rightarrow> None
      | Some t \<Rightarrow>
          if t = RecordISS then
            (case Values c of ISSValues v \<Rightarrow> Some (processISS v) | _ \<Rightarrow> None)
          else if t = RecordLSSBarometer then
            (case Values c of BarometerValues v \<Rightarrow> Some (processLSSBarometer v) | _ \<Rightarrow> None)
          else if t = RecordLSSTempRh then
            (case Values c of TempRhValues v \<Rightarrow> Some (processLSSTempRh v) | _ \<Rightarrow> None)
          else Some (\<lambda>r. r))"

definition sets_or_keeps :: "(Report \<Rightarrow> 'a) \<Rightarrow> (Report \<Rightarrow> Report) \<Rightarrow> bool" where
  "sets_or_keeps sel f = ((\<forall>r. sel (f r) = sel r) \<or> (\<exists>v. \<forall>r. sel (f r) = v))"

text \<open>Sample pull payloads: a batch of condition records around a device id and a
  timestamp; a sensor-suite record; a record whose discriminator (2) is none of the
  three known ones.\<close>

definition batch :: "json list \<Rightarrow> json" where
  "batch records =
     JObj [(''data'', JObj [(''did'', JStr ''X''), (''ts'', JInt 1600000000),
                            (''conditions'', JArr records)]),
           (''error'', JNull)]"

definition knownRecord :: json where
  "knownRecord =
     JObj [(''lsid'', JInt 1), (''data_structure_type'', JInt 1), (''txid'', JInt 1),
           (''temp'', JInt 72), (''rx_state'', JInt 0), (''trans_battery_flag'', JInt 0)]"

definition unknownRecord :: json where
  "unknownRecord = JObj [(''lsid'', JInt 2), (''data_structure_type'', JInt 2), (''txid'', JInt 1)]"

section \<open>The finalize step\<close>

lemma checksum_eq:
  "checksum r =
     (if serializable r
      then Inr (MD5Hex (ReportBytes (ReportJSON.truncate r)), ReportBytes (ReportJSON.truncate r))
      else Inl MarshalerError)"
  by (simp add: checksum_def json_Marshal_def)

lemma serializable_Timestamp:
  "serializable (r\<lparr>Timestamp := t\<rparr>) =
     (marshalableTime t \<and> marshalableOpt (RainStormStartAt r) \<and>
      marshalableOpt (RainStormLastStartAt r) \<and> marshalableOpt (RainStormLastEndAt r))"
  by (simp add: serializable_def)

lemma serializable_truncate: "serializable (ReportJSON.truncate r) = serializable r"
  by (simp add: serializable_def ReportJSON.truncate_def)

lemma serializable_book:
  "serializable (r\<lparr>lastChecksum := c\<rparr>) = serializable r"
  "serializable (r\<lparr>lastBytes := b\<rparr>) = serializable r"
  "serializable (r\<lparr>notify := n\<rparr>) = serializable r"
  "serializable (r\<lparr>DeviceID := d\<rparr>) = serializable r"
  "serializable (trySend r) = serializable r"
  by (simp_all add: serializable_def trySend_def)

lemma updateHook_fails:
  "\<not> serializable r \<Longrightarrow> updateHook m t r = (Failure MarshalerError, r)"
  by (simp add: updateHook_def checksum_eq)

lemma updateHook_gated:
  "serializable r \<Longrightarrow> RXState r = '''' \<or> TransBatteryFlag r = '''' \<Longrightarrow>
   updateHook m t r = (Success, r)"
  by (simp add: updateHook_def checksum_eq)

lemma updateHook_same:
  "serializable r \<Longrightarrow> MD5Hex (ReportBytes (ReportJSON.truncate r)) = lastChecksum r \<Longrightarrow>
   updateHook m t r = (Success, r)"
  by (simp add: updateHook_def checksum_eq)

text \<open>What the changed branch stores: the new Timestamp, and the checksum and bytes of
  the Report with it, or the empty checksum and nil bytes when that cannot be
  serialized.\<close>

lemma updateHook_changed:
  "serializable r \<Longrightarrow> ready r \<Longrightarrow>
   MD5Hex (ReportBytes (ReportJSON.truncate r)) \<noteq> lastChecksum r \<Longrightarrow>
   updateHook m t r =
     (Success,
      trySend (if marshalableTime t
               then r\<lparr>Timestamp := t,
                      lastChecksum := MD5Hex (ReportBytes (ReportJSON.truncate (r\<lparr>Timestamp := t\<rparr>))),
                      lastBytes := ReportBytes (ReportJSON.truncate (r\<lparr>Timestamp := t\<rparr>))\<rparr>
               else r\<lparr>Timestamp := t, lastChecksum := EmptyString, lastBytes := NilBytes\<rparr>))"
  by (simp add: updateHook_def checksum_eq ready_def Let_def serializable_def)

lemma updateHook_fst:
  "fst (updateHook m t r) = (if serializable r then Success else Failure MarshalerError)"
  by (simp add: updateHook_def checksum_eq Let_def split: sum.splits)

lemma updateHook_not_Panic: "fst (updateHook m t r) \<noteq> Panic"
  by (simp add: updateHook_fst)

lemmas sample_defs =
  sampleReport_def samplePull_def sampleISS_def zeroWeatherISS_def UpdateHTTP_def
  processISS_def RecordISS_def SignalSynced_def BatteryNominal_def NewReport_def
  updateHook_def checksum_eq Let_def trySend_def notifyCap_def
  UpdateUDP_def samplePush_def applyEntryUDP_def zeroEntryUDP_def ReportJSON.truncate_def
  time_Unix_def zeroTime_def serializable_def marshalableTime_def marshalableOpt_def

lemmas decode_defs =
  finish_def decodeStruct_def decodePtr_def decodeSlice_def dec_map_def first_error_def
  from_unmarshaler_def set_float_def set_int_def set_string_def set_plain_int_def set_time_def
  Time_UnmarshalJSON_def in_int64_def ascii_lower_def

lemma truncate_finalized:
  "ReportJSON.truncate (trySend (r\<lparr>Timestamp := t, lastChecksum := c, lastBytes := b\<rparr>)) =
   ReportJSON.truncate (r\<lparr>Timestamp := t\<rparr>)"
  by (simp add: trySend_def ReportJSON.truncate_def)

section \<open>Pull merge with an error indicator\<close>

text \<open>
  C7. Given a \<open>ConditionsHTTP\<close> value whose error indicator is not nil, \<open>UpdateHTTP\<close>
  returns a failure carrying the indicator's message, and the Report it returns is the
  Report it was given: no data field, no bookkeeping field and no notification has
  changed.
\<close>

theorem UpdateHTTP_error_atomic:
  "http_Error new = Some e \<Longrightarrow> UpdateHTTP new r = (Failure (ErrorMessage (Message e)), r)"
  by (simp add: UpdateHTTP_def)

theorem UpdateHTTP_error_atomic_witness:
  "http_Error sampleError = Some \<lparr>Code = 409, Message = ''busy''\<rparr> \<and>
   UpdateHTTP sampleError sampleReport = (Failure (ErrorMessage ''busy''), sampleReport)"
  using UpdateHTTP_error_atomic [of sampleError "\<lparr>Code = 409, Message = ''busy''\<rparr>" sampleReport]
  by (simp add: sampleError_def)

section \<open>The lease watchdog\<close>

lemma fetch_leaseReply:
  "fetchBroadcastResponse (Inr leaseReply) sampleClient =
     Ok \<lparr>br_ConnInfo = Some \<lparr>Port = 22222, Duration = 14400\<rparr>, br_Error = None\<rparr>"
  by (simp add: fetchBroadcastResponse_def sampleClient_def leaseReply_def
      ParseBroadcastResponse_def BroadcastResponse_field_def ConnInfo_field_def
      zeroConnInfo_def decode_defs)

lemma fetch_emptyReply:
  "fetchBroadcastResponse (Inr emptyReply) sampleClient =
     Ok \<lparr>br_ConnInfo = None, br_Error = None\<rparr>"
  by (simp add: fetchBroadcastResponse_def sampleClient_def emptyReply_def
      ParseBroadcastResponse_def BroadcastResponse_field_def decode_defs)

lemma sampleClient_late:
  "time_Unix 1600000000 - udpLastReported (sampleClient\<lparr>udpPort := p\<rparr>) > udpDeadline"
  "time_Unix 1600000000 - udpLastReported sampleClient > udpDeadline"
  by (simp_all add: time_Unix_def sampleClient_def zeroTime_def udpDeadline_def)

text \<open>
  C9, as stated, fails: a lease request that succeeds with a reply without the data
  object (the decoder accepts it, and it carries no error indicator) makes the tick
  panic where it reads the reply's port. The lease port is not set and the
  port-resolved signal is not called, although the previous port was 0.
\<close>

theorem udpWatchdog_tick_counterexample:
  "ParseBroadcastResponse emptyReply = Ok \<lparr>br_ConnInfo = None, br_Error = None\<rparr> \<and>
   udpPort sampleClient = 0 \<and>
   udpWatchdogTick (time_Unix 1600000000) (Inr emptyReply) sampleClient =
     (Panic, sampleClient, [LeaseRequest])"
proof -
  have p: "ParseBroadcastResponse emptyReply = Ok \<lparr>br_ConnInfo = None, br_Error = None\<rparr>"
    by (simp add: emptyReply_def ParseBroadcastResponse_def BroadcastResponse_field_def
        decode_defs)
  have u: "client_unit sampleClient \<noteq> None" "udpPort sampleClient = 0"
    by (simp_all add: sampleClient_def)
  show ?thesis
    using p u sampleClient_late(2)
    by (simp add: udpWatchdogTick_def fetch_emptyReply)
qed

text \<open>
  C9, amended. Take a client whose unit address is set and for which the time since
  the last received push message exceeds the receive deadline. One watchdog tick
  issues exactly one lease request. If the request succeeds with a reply that carries
  the broadcast parameters, the lease port becomes the reply's port, the last-received
  timestamp is kept, and the port-resolved signal is called exactly once if the
  previous port was 0 and not at all otherwise. If the request fails, the client
  (lease port and timestamp included) is left as it was and the signal is not called.
\<close>

theorem udpWatchdog_tick_lease:
  assumes "now - udpLastReported c > udpDeadline" and "client_unit c \<noteq> None"
  shows "length (filter (\<lambda>e. e = LeaseRequest) (snd (snd (udpWatchdogTick now reply c)))) = 1 \<and>
         (\<forall>b info. fetchBroadcastResponse reply c = Ok b \<longrightarrow> br_ConnInfo b = Some info \<longrightarrow>
            udpWatchdogTick now reply c =
              (Success, c\<lparr>udpPort := Port info\<rparr>,
               if udpPort c = 0 then [LeaseRequest, PortResolved] else [LeaseRequest])) \<and>
         (\<forall>err. fetchBroadcastResponse reply c = Err err \<longrightarrow>
            udpWatchdogTick now reply c = (Success, c, [LeaseRequest]))"
  using assms
  by (auto simp: udpWatchdogTick_def Let_def split: result.splits option.splits)

theorem udpWatchdog_tick_lease_witness:
  "udpPort sampleClient = 0 \<and>
   udpWatchdogTick (time_Unix 1600000000) (Inr leaseReply) sampleClient =
     (Success, sampleClient\<lparr>udpPort := 22222\<rparr>, [LeaseRequest, PortResolved]) \<and>
   udpWatchdogTick (time_Unix 1600000000) (Inl (ErrorMessage ''timeout''))
      (sampleClient\<lparr>udpPort := 22222\<rparr>) =
     (Success, sampleClient\<lparr>udpPort := 22222\<rparr>, [LeaseRequest])"
proof -
  have u: "client_unit sampleClient \<noteq> None" "client_unit (sampleClient\<lparr>udpPort := 22222\<rparr>) \<noteq> None"
    and port0: "udpPort sampleClient = 0"
    by (simp_all add: sampleClient_def)
  have f: "fetchBroadcastResponse (Inl (ErrorMessage ''timeout'')) (sampleClient\<lparr>udpPort := 22222\<rparr>)
             = Err (ErrorMessage ''timeout'')"
    by (simp add: fetchBroadcastResponse_def sampleClient_def)
  show ?thesis
    using udpWatchdog_tick_lease [OF sampleClient_late(2) u(1), of "Inr leaseReply"]
          udpWatchdog_tick_lease [OF sampleClient_late(1) [of 22222] u(2), of "Inl (ErrorMessage ''timeout'')"]
          fetch_leaseReply f port0
    by simp
qed

section \<open>Snapshots\<close>

lemma Copy_eq:
  assumes "serializable r"
  shows "Copy r = Inr (r\<lparr>notify := 0\<rparr>)"
proof -
  have "ReportJSON.extend (ReportJSON.truncate r)
          (Report.fields 0 (verbose r) (lastChecksum r) (lastBytes r)) = r\<lparr>notify := 0\<rparr>"
    by (simp add: ReportJSON.truncate_def ReportJSON.extend_def Report.fields_def)
  then show ?thesis
    using assms by (simp add: Copy_def json_Marshal_def json_Unmarshal_def serializable_truncate)
qed

lemma Copy_fails: "\<not> serializable r \<Longrightarrow> Copy r = Inl MarshalerError"
  by (simp add: Copy_def json_Marshal_def)

lemma NewReport_serializable: "serializable (NewReport vb)"
  by (simp add: NewReport_def serializable_def marshalableTime_def marshalableOpt_def zeroTime_def)

lemma NewReport_notify: "(NewReport vb)\<lparr>notify := 0\<rparr> = NewReport vb"
  by (simp add: NewReport_def)

text \<open>
  C2, as stated, fails: on a client to which no update has been applied the snapshot
  operation returns a Report (a copy of the empty one) and no error.
\<close>

theorem Client_Report_fresh_counterexample:
  "Client_Report (Managed False) = Inr (NewReport False)"
  by (simp add: Client_Report_def Managed_def Copy_eq NewReport_notify NewReport_serializable)

text \<open>
  C2, amended. On a client to which no update has been applied, whether managed or
  unmanaged, \<open>Client.Report()\<close> succeeds and returns a copy of the empty Report:
  every measurement unset, empty device identifier, zero timestamp, empty notification
  queue.
\<close>

theorem Client_Report_fresh:
  "Client_Report (Managed vb) = Inr (NewReport vb) \<and>
   (\<forall>c. Unmanaged parseIP vb hostname port = Inr c \<longrightarrow> Client_Report c = Inr (NewReport vb))"
  by (auto simp: Client_Report_def Managed_def Unmanaged_def Copy_eq NewReport_notify
      NewReport_serializable Let_def
      split: if_splits)

theorem Client_Report_fresh_witness:
  "Unmanaged (\<lambda>_. None) True ''wll.local'' 0 =
     Inr \<lparr>report = NewReport True, client_verbose = True,
          client_unit = Some \<lparr>HostName = ''wll.local'', unit_Port = 80, AddrIPv4 = [], AddrIPv6 = []\<rparr>,
          udpPort = 0, udpLastReported = zeroTime\<rparr> \<and>
   Client_Report \<lparr>report = NewReport True, client_verbose = True,
          client_unit = Some \<lparr>HostName = ''wll.local'', unit_Port = 80, AddrIPv4 = [], AddrIPv6 = []\<rparr>,
          udpPort = 0, udpLastReported = zeroTime\<rparr> = Inr (NewReport True)"
proof -
  have u: "Unmanaged (\<lambda>_. None) True ''wll.local'' 0 =
     Inr \<lparr>report = NewReport True, client_verbose = True,
          client_unit = Some \<lparr>HostName = ''wll.local'', unit_Port = 80, AddrIPv4 = [], AddrIPv6 = []\<rparr>,
          udpPort = 0, udpLastReported = zeroTime\<rparr>"
    by (simp add: Unmanaged_def clientDefaultPort_def)
  show ?thesis
    using u Client_Report_fresh [of True "\<lambda>_. None" "''wll.local''" 0] by simp
qed

section \<open>The frame of the push merge\<close>

lemma push_frame_refl: "push_frame r r"
  by (simp add: push_frame_def)

lemma push_frame_trans: "push_frame r r' \<Longrightarrow> push_frame r' r'' \<Longrightarrow> push_frame r r''"
  by (simp add: push_frame_def)

lemma push_frame_applyEntryUDP: "push_frame r (applyEntryUDP r c)"
  by (simp add: push_frame_def applyEntryUDP_def)

lemma push_frame_foldl: "push_frame r (foldl applyEntryUDP r cs)"
proof (induction cs arbitrary: r)
  case Nil
  show ?case by (simp add: push_frame_refl)
next
  case (Cons c cs)
  have "push_frame r (applyEntryUDP r c)" by (rule push_frame_applyEntryUDP)
  moreover have "push_frame (applyEntryUDP r c) (foldl applyEntryUDP (applyEntryUDP r c) cs)"
    by (rule Cons.IH)
  ultimately show ?case by (simp add: push_frame_trans)
qed

lemma push_frame_DeviceID: "push_frame r (r\<lparr>DeviceID := d\<rparr>)"
  by (simp add: push_frame_def)

lemma push_frame_updateHook: "push_frame r (snd (updateHook m t r))"
  by (simp add: push_frame_def updateHook_def checksum_eq Let_def trySend_def)

lemma push_frame_UpdateUDP: "push_frame r (snd (UpdateUDP new r))"
proof -
  let ?r1 = "r\<lparr>DeviceID := udp_DeviceID new\<rparr>"
  let ?r2 = "foldl applyEntryUDP ?r1 (udp_Conditions new)"
  have a: "push_frame r ?r2"
    using push_frame_DeviceID push_frame_foldl push_frame_trans by blast
  show ?thesis
  proof (cases "udp_Timestamp new")
    case None
    then show ?thesis using a by (simp add: UpdateUDP_def)
  next
    case (Some ts)
    have "push_frame ?r2 (snd (updateHook MethodUDP ts ?r2))" by (rule push_frame_updateHook)
    with a have "push_frame r (snd (updateHook MethodUDP ts ?r2))" by (rule push_frame_trans)
    then show ?thesis using Some by (simp add: UpdateUDP_def)
  qed
qed

text \<open>
  C8. For every push record and every Report, \<open>UpdateUDP\<close> leaves unchanged every
  field other than the device identifier, the instantaneous wind speed and direction,
  the rain size, rate, counters and totals, the storm start time, the 10-minute gust
  fields and the bookkeeping of the finalize step (timestamp, checksum, serialized
  bytes, notification queue). In particular the receiver-health fields, the outdoor
  temperature, humidity and derived indices, the indoor-climate fields and the
  barometric fields keep their previous values.
\<close>

theorem UpdateUDP_frame:
  "(let r' = snd (UpdateUDP new r) in
     Temperature r' = Temperature r \<and>
     Humidity r' = Humidity r \<and>
     Dewpoint r' = Dewpoint r \<and>
     Wetbulb r' = Wetbulb r \<and>
     HeatIndex r' = HeatIndex r \<and>
     WindChill r' = WindChill r \<and>
     THWIndex r' = THWIndex r \<and>
     THSWIndex r' = THSWIndex r \<and>
     WindSpeedAvgLast1Min r' = WindSpeedAvgLast1Min r \<and>
     WindDirAvgLast1Min r' = WindDirAvgLast1Min r \<and>
     WindSpeedAvgLast2Min r' = WindSpeedAvgLast2Min r \<and>
     WindDirAvgLast2Min r' = WindDirAvgLast2Min r \<and>
     WindSpeedHighLast2Min r' = WindSpeedHighLast2Min r \<and>
     WindDirAtHighLast2Min r' = WindDirAtHighLast2Min r \<and>
     WindSpeedAvgLast10Min r' = WindSpeedAvgLast10Min r \<and>
     WindDirAvgLast10Min r' = WindDirAvgLast10Min r \<and>
     RainRateHigh r' = RainRateHigh r \<and>
     RainRateHighLast15Min r' = RainRateHighLast15Min r \<and>
     SolarRad r' = SolarRad r \<and>
     UVIndex r' = UVIndex r \<and>
     RXState r' = RXState r \<and>
     TransBatteryFlag r' = TransBatteryFlag r \<and>
     RainStormLast r' = RainStormLast r \<and>
     RainStormLastStartAt r' = RainStormLastStartAt r \<and>
     RainStormLastEndAt r' = RainStormLastEndAt r \<and>
     BarometerSeaLevel r' = BarometerSeaLevel r \<and>
     BarometerTrend r' = BarometerTrend r \<and>
     BarometerAbsolute r' = BarometerAbsolute r \<and>
     TemperatureIndoor r' = TemperatureIndoor r \<and>
     HumidityIndoor r' = HumidityIndoor r \<and>
     DewPointIndoor r' = DewPointIndoor r \<and>
     HeatIndexIndoor r' = HeatIndexIndoor r \<and>
     verbose r' = verbose r)"
  using push_frame_UpdateUDP [of r new] by (simp add: push_frame_def Let_def)

theorem UpdateUDP_frame_witness:
  "(let r' = snd (UpdateUDP (samplePush 5 1600000003) sampleReport) in
     Temperature r' = Some 72 \<and> RXState r' = ''Synced'' \<and> TransBatteryFlag r' = ''Nominal'' \<and>
     WindSpeedLast r' = Some 5 \<and> WindSpeedLast sampleReport = None \<and>
     Timestamp r' = time_Unix 1600000003 \<and> notify r' = 1)"
proof -
  have s: "Temperature sampleReport = Some 72 \<and> RXState sampleReport = ''Synced'' \<and>
           TransBatteryFlag sampleReport = ''Nominal'' \<and> WindSpeedLast sampleReport = None"
    by (simp add: sample_defs)
  have u: "WindSpeedLast (snd (UpdateUDP (samplePush 5 1600000003) sampleReport)) = Some 5 \<and>
           Timestamp (snd (UpdateUDP (samplePush 5 1600000003) sampleReport)) = time_Unix 1600000003 \<and>
           notify (snd (UpdateUDP (samplePush 5 1600000003) sampleReport)) = 1"
    by (simp add: sample_defs)
  show ?thesis
    using UpdateUDP_frame [of "samplePush 5 1600000003" sampleReport] s u
    by (simp add: Let_def)
qed

section \<open>Readiness gating of the push merge\<close>

lemma foldl_applyEntryUDP_book:
  "notify (foldl applyEntryUDP r cs) = notify r \<and>
   lastChecksum (foldl applyEntryUDP r cs) = lastChecksum r \<and>
   lastBytes (foldl applyEntryUDP r cs) = lastBytes r \<and>
   Timestamp (foldl applyEntryUDP r cs) = Timestamp r \<and>
   RXState (foldl applyEntryUDP r cs) = RXState r \<and>
   TransBatteryFlag (foldl applyEntryUDP r cs) = TransBatteryFlag r"
  by (induction cs arbitrary: r) (simp_all add: applyEntryUDP_def)

lemma applyEntryUDP_serializable:
  "serializable r \<Longrightarrow> marshalableOpt (udp_RainStormStartAt c) \<Longrightarrow>
   serializable (applyEntryUDP r c)"
  by (cases "udp_RainStormStartAt c")
     (simp_all add: applyEntryUDP_def serializable_def marshalableOpt_def)

lemma foldl_applyEntryUDP_serializable:
  "serializable r \<Longrightarrow> \<forall>c \<in> set cs. marshalableOpt (udp_RainStormStartAt c) \<Longrightarrow>
   serializable (foldl applyEntryUDP r cs)"
  by (induction cs arbitrary: r) (simp_all add: applyEntryUDP_serializable)

lemma UpdateUDP_gated:
  assumes "\<not> ready r" and "udp_Timestamp u = Some ts"
  shows "UpdateUDP u r =
           (if serializable (foldl applyEntryUDP (r\<lparr>DeviceID := udp_DeviceID u\<rparr>) (udp_Conditions u))
            then Success else Failure MarshalerError,
            foldl applyEntryUDP (r\<lparr>DeviceID := udp_DeviceID u\<rparr>) (udp_Conditions u))"
proof -
  let ?r' = "foldl applyEntryUDP (r\<lparr>DeviceID := udp_DeviceID u\<rparr>) (udp_Conditions u)"
  have "RXState ?r' = RXState r" and "TransBatteryFlag ?r' = TransBatteryFlag r"
    using foldl_applyEntryUDP_book [of "r\<lparr>DeviceID := udp_DeviceID u\<rparr>" "udp_Conditions u"]
    by simp_all
  with assms(1) have gate: "RXState ?r' = '''' \<or> TransBatteryFlag ?r' = ''''"
    by (simp add: ready_def)
  have "updateHook MethodUDP ts ?r' =
          (if serializable ?r' then Success else Failure MarshalerError, ?r')"
  proof (cases "serializable ?r'")
    case True
    from updateHook_gated [OF True gate] True show ?thesis by simp
  next
    case False
    from updateHook_fails [OF False] False show ?thesis by simp
  qed
  with assms(2) show ?thesis
    by (simp add: UpdateUDP_def Let_def)
qed

lemma UpdateUDP_gated_book:
  assumes "\<not> ready r" and "udp_Timestamp u = Some ts"
  shows "(fst (UpdateUDP u r) = Success \<or> fst (UpdateUDP u r) = Failure MarshalerError) \<and>
         \<not> ready (snd (UpdateUDP u r)) \<and>
         notify (snd (UpdateUDP u r)) = notify r \<and>
         lastChecksum (snd (UpdateUDP u r)) = lastChecksum r \<and>
         lastBytes (snd (UpdateUDP u r)) = lastBytes r \<and>
         Timestamp (snd (UpdateUDP u r)) = Timestamp r"
  using foldl_applyEntryUDP_book [of "r\<lparr>DeviceID := udp_DeviceID u\<rparr>" "udp_Conditions u"]
        UpdateUDP_gated [OF assms] assms(1)
  by (simp add: ready_def)

lemma UpdateUDP_gated_Success:
  assumes "\<not> ready r" and "udp_Timestamp u = Some ts" and "serializable r"
    and "\<forall>c \<in> set (udp_Conditions u). marshalableOpt (udp_RainStormStartAt c)"
  shows "fst (UpdateUDP u r) = Success \<and> serializable (snd (UpdateUDP u r))"
proof -
  from assms(3) have "serializable (r\<lparr>DeviceID := udp_DeviceID u\<rparr>)"
    by (simp add: serializable_book)
  from foldl_applyEntryUDP_serializable [OF this assms(4)] UpdateUDP_gated [OF assms(1,2)]
  show ?thesis by simp
qed

lemma feedUDP_gated:
  assumes "\<not> ready r" and "\<forall>u \<in> set us. udp_Timestamp u \<noteq> None"
  shows "length (fst (feedUDP us r)) = length us \<and>
         (\<forall>out \<in> set (fst (feedUDP us r)). out = Success \<or> out = Failure MarshalerError) \<and>
         notify (snd (feedUDP us r)) = notify r \<and>
         lastChecksum (snd (feedUDP us r)) = lastChecksum r \<and>
         lastBytes (snd (feedUDP us r)) = lastBytes r \<and>
         Timestamp (snd (feedUDP us r)) = Timestamp r"
  using assms
proof (induction us arbitrary: r)
  case Nil
  show ?case by simp
next
  case (Cons u us)
  from Cons.prems(2) obtain ts where ts: "udp_Timestamp u = Some ts"
    by auto
  note step = UpdateUDP_gated_book [OF Cons.prems(1) ts]
  obtain out r' where ur: "UpdateUDP u r = (out, r')"
    by (cases "UpdateUDP u r")
  with step have out: "out = Success \<or> out = Failure MarshalerError" and nr': "\<not> ready r'"
    and book: "notify r' = notify r" "lastChecksum r' = lastChecksum r"
      "lastBytes r' = lastBytes r" "Timestamp r' = Timestamp r"
    by simp_all
  from Cons.prems(2) have rest: "\<forall>u \<in> set us. udp_Timestamp u \<noteq> None"
    by simp
  note ih = Cons.IH [OF nr' rest]
  obtain outs r'' where fr: "feedUDP us r' = (outs, r'')"
    by (cases "feedUDP us r'")
  show ?case
    using ih ur fr out book by auto
qed

lemma feedUDP_gated_Success:
  assumes "\<not> ready r" and "\<forall>u \<in> set us. udp_Timestamp u \<noteq> None" and "serializable r"
    and "\<forall>u \<in> set us. \<forall>c \<in> set (udp_Conditions u). marshalableOpt (udp_RainStormStartAt c)"
  shows "\<forall>out \<in> set (fst (feedUDP us r)). out = Success"
  using assms
proof (induction us arbitrary: r)
  case Nil
  show ?case by simp
next
  case (Cons u us)
  from Cons.prems(2) obtain ts where ts: "udp_Timestamp u = Some ts"
    by auto
  from Cons.prems(4) have inr: "\<forall>c \<in> set (udp_Conditions u). marshalableOpt (udp_RainStormStartAt c)"
    by simp
  note ok = UpdateUDP_gated_Success [OF Cons.prems(1) ts Cons.prems(3) inr]
  note step = UpdateUDP_gated_book [OF Cons.prems(1) ts]
  obtain out r' where ur: "UpdateUDP u r = (out, r')"
    by (cases "UpdateUDP u r")
  with ok step have out: "out = Success" and s': "serializable r'" and nr': "\<not> ready r'"
    by simp_all
  from Cons.prems(2,4) have rest: "\<forall>u \<in> set us. udp_Timestamp u \<noteq> None"
    "\<forall>u \<in> set us. \<forall>c \<in> set (udp_Conditions u). marshalableOpt (udp_RainStormStartAt c)"
    by simp_all
  note ih = Cons.IH [OF nr' rest(1) s' rest(2)]
  obtain outs r'' where fr: "feedUDP us r' = (outs, r'')"
    by (cases "feedUDP us r'")
  show ?case
    using ih ur fr out by simp
qed

text \<open>
  C1, as stated, fails in two ways. A push record without a timestamp, which the
  decoder accepts, makes \<open>UpdateUDP\<close> panic on a fresh Report. A push record with a
  timestamp whose storm start lies beyond year 9999, which the decoder accepts as well,
  makes \<open>UpdateUDP\<close> return the error of the checksum, which the finalize step
  computes before it tests the receiver-health fields.
\<close>

theorem UpdateUDP_gating_counterexample:
  "ParseUDP (JObj [(''did'', JStr ''X''),
                   (''conditions'', JArr [JObj [(''wind_speed_last'', JInt 5)]])])
     = Ok pushWithoutTimestamp \<and>
   fst (UpdateUDP pushWithoutTimestamp (NewReport False)) = Panic \<and>
   ParseUDP (JObj [(''did'', JStr ''X''), (''ts'', JInt 1600000003),
                   (''conditions'', JArr [JObj [(''rain_storm_start_at'', JInt 300000000000)]])])
     = Ok farPush \<and>
   fst (UpdateUDP farPush (NewReport False)) = Failure MarshalerError"
proof -
  have a: "ParseUDP (JObj [(''did'', JStr ''X''),
                   (''conditions'', JArr [JObj [(''wind_speed_last'', JInt 5)]])])
     = Ok pushWithoutTimestamp"
    by (simp add: ParseUDP_def ConditionsUDP_field_def EntryUDP_field_def decode_defs
        zeroConditionsUDP_def pushWithoutTimestamp_def)
  have b: "fst (UpdateUDP pushWithoutTimestamp (NewReport False)) = Panic"
    by (simp add: pushWithoutTimestamp_def UpdateUDP_def)
  have c: "ParseUDP (JObj [(''did'', JStr ''X''), (''ts'', JInt 1600000003),
                   (''conditions'', JArr [JObj [(''rain_storm_start_at'', JInt 300000000000)]])])
     = Ok farPush"
    by (simp add: ParseUDP_def ConditionsUDP_field_def EntryUDP_field_def decode_defs
        zeroConditionsUDP_def farPush_def time_Unix_def)
  have d: "fst (UpdateUDP farPush (NewReport False)) = Failure MarshalerError"
    by (simp add: farPush_def sample_defs)
  from a b c d show ?thesis by simp
qed

text \<open>
  C1, amended. For every Report in which a receiver-health field (signal state or
  battery state) is still unset, and every sequence of push records that each carry a
  timestamp, no \<open>UpdateUDP\<close> call of the sequence panics: each returns success or the
  error of serializing the Report, and all return success when the Report can be
  serialized at the start and no record carries a storm start outside years 0 to 9999.
  In every case the notification queue, the stored checksum, the stored serialized
  bytes and the Timestamp are afterwards what they were before, whatever the records
  contain.
\<close>

theorem UpdateUDP_gating:
  assumes "RXState r = '''' \<or> TransBatteryFlag r = ''''"
    and "\<forall>u \<in> set us. udp_Timestamp u \<noteq> None"
  shows "length (fst (feedUDP us r)) = length us \<and>
         (\<forall>out \<in> set (fst (feedUDP us r)). out = Success \<or> out = Failure MarshalerError) \<and>
         (serializable r \<and>
          (\<forall>u \<in> set us. \<forall>c \<in> set (udp_Conditions u). marshalableOpt (udp_RainStormStartAt c)) \<longrightarrow>
          (\<forall>out \<in> set (fst (feedUDP us r)). out = Success)) \<and>
         notify (snd (feedUDP us r)) = notify r \<and>
         lastChecksum (snd (feedUDP us r)) = lastChecksum r \<and>
         lastBytes (snd (feedUDP us r)) = lastBytes r \<and>
         Timestamp (snd (feedUDP us r)) = Timestamp r"
proof -
  from assms(1) have nr: "\<not> ready r"
    by (simp add: ready_def)
  from feedUDP_gated [OF nr assms(2)] feedUDP_gated_Success [OF nr assms(2)]
  show ?thesis by blast
qed

theorem UpdateUDP_gating_witness:
  "(let res = feedUDP [samplePush 5 1600000003, samplePush 7 1600000006] (NewReport False) in
     fst res = [Success, Success] \<and> WindSpeedLast (snd res) = Some 7 \<and>
     WindSpeedLast (NewReport False) = None \<and>
     notify (snd res) = 0 \<and> lastChecksum (snd res) = EmptyString \<and>
     lastBytes (snd res) = NilBytes \<and> Timestamp (snd res) = zeroTime)"
proof -
  have g: "RXState (NewReport False) = '''' \<or> TransBatteryFlag (NewReport False) = ''''"
    by (simp add: NewReport_def)
  have t: "\<forall>u \<in> set [samplePush 5 1600000003, samplePush 7 1600000006]. udp_Timestamp u \<noteq> None"
    by (simp add: samplePush_def)
  have s: "serializable (NewReport False)"
    by (rule NewReport_serializable)
  have m: "\<forall>u \<in> set [samplePush 5 1600000003, samplePush 7 1600000006].
             \<forall>c \<in> set (udp_Conditions u). marshalableOpt (udp_RainStormStartAt c)"
    by (simp add: samplePush_def zeroEntryUDP_def marshalableOpt_def)
  have w: "WindSpeedLast (snd (feedUDP [samplePush 5 1600000003, samplePush 7 1600000006]
             (NewReport False))) = Some 7"
    by (simp add: sample_defs)
  have n: "notify (NewReport False) = 0 \<and> lastChecksum (NewReport False) = EmptyString \<and>
           lastBytes (NewReport False) = NilBytes \<and> Timestamp (NewReport False) = zeroTime \<and>
           WindSpeedLast (NewReport False) = None"
    by (simp add: NewReport_def)
  have l: "\<And>xs :: outcome list. length xs = 2 \<Longrightarrow> \<forall>x \<in> set xs. x = Success \<Longrightarrow> xs = [Success, Success]"
  proof -
    fix xs :: "outcome list"
    assume "length xs = 2" and a: "\<forall>x \<in> set xs. x = Success"
    then obtain a b where "xs = [a, b]"
      by (metis One_nat_def Suc_1 length_0_conv length_Suc_conv)
    with a show "xs = [Success, Success]" by simp
  qed
  have all: "\<forall>out \<in> set (fst (feedUDP [samplePush 5 1600000003, samplePush 7 1600000006]
               (NewReport False))). out = Success"
    using UpdateUDP_gating [OF g t] s m by blast
  show ?thesis
    using UpdateUDP_gating [OF g t] all w n l by (simp add: Let_def)
qed

section \<open>The entries of a pull record set, field by field\<close>

lemma processConditions_Cons_effect:
  "processConditions (c # cs) r =
     (case entry_effect c of None \<Rightarrow> (Panic, r) | Some f \<Rightarrow> processConditions cs (f r))"
  by (simp add: entry_effect_def split: option.splits Values.splits)

lemma processConditions_fst:
  "fst (processConditions cs r) = (if \<forall>c \<in> set cs. entry_effect c \<noteq> None then Success else Panic)"
proof (induction cs arbitrary: r)
  case Nil
  show ?case by simp
next
  case (Cons c cs)
  show ?case
  proof (cases "entry_effect c")
    case None
    then show ?thesis by (simp add: processConditions_Cons_effect del: processConditions.simps)
  next
    case (Some f)
    with Cons.IH [of "f r"] show ?thesis
      by (simp add: processConditions_Cons_effect del: processConditions.simps)
  qed
qed

lemma entry_effect_cases:
  assumes "entry_effect c = Some f"
  shows "(\<exists>v. f = processISS v) \<or> (\<exists>v. f = processLSSBarometer v) \<or>
         (\<exists>v. f = processLSSTempRh v) \<or> f = (\<lambda>r. r)"
  using assms
  by (auto simp: entry_effect_def split: option.splits if_splits Values.splits)

lemma sets_or_keeps_id: "sets_or_keeps sel (\<lambda>r. r)"
  by (simp add: sets_or_keeps_def)

lemma sets_or_keeps_comp:
  assumes "sets_or_keeps sel f" and "sets_or_keeps sel g"
  shows "sets_or_keeps sel (\<lambda>r. g (f r))"
  using assms unfolding sets_or_keeps_def by metis

lemma sets_or_keeps_run:
  assumes "\<And>c f. entry_effect c = Some f \<Longrightarrow> sets_or_keeps sel f"
    and "\<forall>c \<in> set cs. entry_effect c \<noteq> None"
  shows "sets_or_keeps sel (\<lambda>r. snd (processConditions cs r))"
  using assms(2)
proof (induction cs)
  case Nil
  show ?case by (simp add: sets_or_keeps_id)
next
  case (Cons c cs)
  then obtain f where f: "entry_effect c = Some f"
    by auto
  from Cons have rest: "sets_or_keeps sel (\<lambda>r. snd (processConditions cs r))"
    by simp
  from sets_or_keeps_comp [OF assms(1) [OF f] rest]
  show ?case by (simp add: processConditions_Cons_effect f del: processConditions.simps)
qed

lemma sets_or_keeps_plain_ISS:
  "sets_or_keeps DeviceID (processISS v) \<and>
   sets_or_keeps Timestamp (processISS v) \<and>
   sets_or_keeps Temperature (processISS v) \<and>
   sets_or_keeps Humidity (processISS v) \<and>
   sets_or_keeps Dewpoint (processISS v) \<and>
   sets_or_keeps Wetbulb (processISS v) \<and>
   sets_or_keeps HeatIndex (processISS v) \<and>
   sets_or_keeps WindChill (processISS v) \<and>
   sets_or_keeps THWIndex (processISS v) \<and>
   sets_or_keeps THSWIndex (processISS v) \<and>
   sets_or_keeps WindSpeedLast (processISS v) \<and>
   sets_or_keeps WindDirLast (processISS v) \<and>
   sets_or_keeps WindSpeedAvgLast1Min (processISS v) \<and>
   sets_or_keeps WindDirAvgLast1Min (processISS v) \<and>
   sets_or_keeps WindSpeedAvgLast2Min (processISS v) \<and>
   sets_or_keeps WindDirAvgLast2Min (processISS v) \<and>
   sets_or_keeps WindSpeedHighLast2Min (processISS v) \<and>
   sets_or_keeps WindDirAtHighLast2Min (processISS v) \<and>
   sets_or_keeps WindSpeedAvgLast10Min (processISS v) \<and>
   sets_or_keeps WindDirAvgLast10Min (processISS v) \<and>
   sets_or_keeps WindSpeedHighLast10Min (processISS v) \<and>
   sets_or_keeps WindDirAtHighLast10Min (processISS v) \<and>
   sets_or_keeps RainSize (processISS v) \<and>
   sets_or_keeps RainRateLast (processISS v) \<and>
   sets_or_keeps RainRateHigh (processISS v) \<and>
   sets_or_keeps RainLast15Min (processISS v) \<and>
   sets_or_keeps RainRateHighLast15Min (processISS v) \<and>
   sets_or_keeps RainLast60Min (processISS v) \<and>
   sets_or_keeps RainLast24Hour (processISS v) \<and>
   sets_or_keeps RainStorm (processISS v) \<and>
   sets_or_keeps SolarRad (processISS v) \<and>
   sets_or_keeps UVIndex (processISS v) \<and>
   sets_or_keeps RainfallDaily (processISS v) \<and>
   sets_or_keeps RainfallMonthly (processISS v) \<and>
   sets_or_keeps RainfallYear (processISS v) \<and>
   sets_or_keeps RainStormLast (processISS v) \<and>
   sets_or_keeps BarometerSeaLevel (processISS v) \<and>
   sets_or_keeps BarometerTrend (processISS v) \<and>
   sets_or_keeps BarometerAbsolute (processISS v) \<and>
   sets_or_keeps TemperatureIndoor (processISS v) \<and>
   sets_or_keeps HumidityIndoor (processISS v) \<and>
   sets_or_keeps DewPointIndoor (processISS v) \<and>
   sets_or_keeps HeatIndexIndoor (processISS v) \<and>
   sets_or_keeps notify (processISS v) \<and>
   sets_or_keeps verbose (processISS v) \<and>
   sets_or_keeps lastChecksum (processISS v) \<and>
   sets_or_keeps lastBytes (processISS v)"
  by (simp add: sets_or_keeps_def processISS_def)

lemma sets_or_keeps_times_ISS:
  "sets_or_keeps RainStormStartAt (processISS v) \<and>
   sets_or_keeps RainStormLastStartAt (processISS v) \<and>
   sets_or_keeps RainStormLastEndAt (processISS v)"
  by (cases "iss_RainStormStartAt v"; cases "iss_RainStormLastStartAt v";
      cases "iss_RainStormLastEndAt v")
     (simp_all add: sets_or_keeps_def processISS_def)

lemma sets_or_keeps_RXState_ISS: "sets_or_keeps RXState (processISS v)"
proof (cases "iss_RXState v")
  case None
  then show ?thesis by (simp add: sets_or_keeps_def processISS_def)
next
  case (Some s)
  consider "s = SignalSynced" | "s \<noteq> SignalSynced" "s = SignalRescan"
    | "s \<noteq> SignalSynced" "s \<noteq> SignalRescan" "s = SignalLost"
    | "s \<noteq> SignalSynced" "s \<noteq> SignalRescan" "s \<noteq> SignalLost"
    by blast
  then show ?thesis
    by cases (simp_all add: Some sets_or_keeps_def processISS_def)
qed

lemma sets_or_keeps_Battery_ISS: "sets_or_keeps TransBatteryFlag (processISS v)"
proof (cases "iss_TransBatteryFlag v")
  case None
  then show ?thesis by (simp add: sets_or_keeps_def processISS_def)
next
  case (Some b)
  consider "b = BatteryNominal" | "b \<noteq> BatteryNominal" "b = BatteryWarning"
    | "b \<noteq> BatteryNominal" "b \<noteq> BatteryWarning"
    by blast
  then show ?thesis
    by cases (simp_all add: Some sets_or_keeps_def processISS_def)
qed

lemma sets_or_keeps_LSS:
  "sets_or_keeps DeviceID (processLSSBarometer b) \<and> sets_or_keeps DeviceID (processLSSTempRh h) \<and>
   sets_or_keeps Timestamp (processLSSBarometer b) \<and> sets_or_keeps Timestamp (processLSSTempRh h) \<and>
   sets_or_keeps Temperature (processLSSBarometer b) \<and> sets_or_keeps Temperature (processLSSTempRh h) \<and>
   sets_or_keeps Humidity (processLSSBarometer b) \<and> sets_or_keeps Humidity (processLSSTempRh h) \<and>
   sets_or_keeps Dewpoint (processLSSBarometer b) \<and> sets_or_keeps Dewpoint (processLSSTempRh h) \<and>
   sets_or_keeps Wetbulb (processLSSBarometer b) \<and> sets_or_keeps Wetbulb (processLSSTempRh h) \<and>
   sets_or_keeps HeatIndex (processLSSBarometer b) \<and> sets_or_keeps HeatIndex (processLSSTempRh h) \<and>
   sets_or_keeps WindChill (processLSSBarometer b) \<and> sets_or_keeps WindChill (processLSSTempRh h) \<and>
   sets_or_keeps THWIndex (processLSSBarometer b) \<and> sets_or_keeps THWIndex (processLSSTempRh h) \<and>
   sets_or_keeps THSWIndex (processLSSBarometer b) \<and> sets_or_keeps THSWIndex (processLSSTempRh h) \<and>
   sets_or_keeps WindSpeedLast (processLSSBarometer b) \<and> sets_or_keeps WindSpeedLast (processLSSTempRh h) \<and>
   sets_or_keeps WindDirLast (processLSSBarometer b) \<and> sets_or_keeps WindDirLast (processLSSTempRh h) \<and>
   sets_or_keeps WindSpeedAvgLast1Min (processLSSBarometer b) \<and> sets_or_keeps WindSpeedAvgLast1Min (processLSSTempRh h) \<and>
   sets_or_keeps WindDirAvgLast1Min (processLSSBarometer b) \<and> sets_or_keeps WindDirAvgLast1Min (processLSSTempRh h) \<and>
   sets_or_keeps WindSpeedAvgLast2Min (processLSSBarometer b) \<and> sets_or_keeps WindSpeedAvgLast2Min (processLSSTempRh h) \<and>
   sets_or_keeps WindDirAvgLast2Min (processLSSBarometer b) \<and> sets_or_keeps WindDirAvgLast2Min (processLSSTempRh h) \<and>
   sets_or_keeps WindSpeedHighLast2Min (processLSSBarometer b) \<and> sets_or_keeps WindSpeedHighLast2Min (processLSSTempRh h) \<and>
   sets_or_keeps WindDirAtHighLast2Min (processLSSBarometer b) \<and> sets_or_keeps WindDirAtHighLast2Min (processLSSTempRh h) \<and>
   sets_or_keeps WindSpeedAvgLast10Min (processLSSBarometer b) \<and> sets_or_keeps WindSpeedAvgLast10Min (processLSSTempRh h) \<and>
   sets_or_keeps WindDirAvgLast10Min (processLSSBarometer b) \<and> sets_or_keeps WindDirAvgLast10Min (processLSSTempRh h) \<and>
   sets_or_keeps WindSpeedHighLast10Min (processLSSBarometer b) \<and> sets_or_keeps WindSpeedHighLast10Min (processLSSTempRh h) \<and>
   sets_or_keeps WindDirAtHighLast10Min (processLSSBarometer b) \<and> sets_or_keeps WindDirAtHighLast10Min (processLSSTempRh h) \<and>
   sets_or_keeps RainSize (processLSSBarometer b) \<and> sets_or_keeps RainSize (processLSSTempRh h) \<and>
   sets_or_keeps RainRateLast (processLSSBarometer b) \<and> sets_or_keeps RainRateLast (processLSSTempRh h) \<and>
   sets_or_keeps RainRateHigh (processLSSBarometer b) \<and> sets_or_keeps RainRateHigh (processLSSTempRh h) \<and>
   sets_or_keeps RainLast15Min (processLSSBarometer b) \<and> sets_or_keeps RainLast15Min (processLSSTempRh h) \<and>
   sets_or_keeps RainRateHighLast15Min (processLSSBarometer b) \<and> sets_or_keeps RainRateHighLast15Min (processLSSTempRh h) \<and>
   sets_or_keeps RainLast60Min (processLSSBarometer b) \<and> sets_or_keeps RainLast60Min (processLSSTempRh h) \<and>
   sets_or_keeps RainLast24Hour (processLSSBarometer b) \<and> sets_or_keeps RainLast24Hour (processLSSTempRh h) \<and>
   sets_or_keeps RainStorm (processLSSBarometer b) \<and> sets_or_keeps RainStorm (processLSSTempRh h) \<and>
   sets_or_keeps RainStormStartAt (processLSSBarometer b) \<and> sets_or_keeps RainStormStartAt (processLSSTempRh h) \<and>
   sets_or_keeps SolarRad (processLSSBarometer b) \<and> sets_or_keeps SolarRad (processLSSTempRh h) \<and>
   sets_or_keeps UVIndex (processLSSBarometer b) \<and> sets_or_keeps UVIndex (processLSSTempRh h) \<and>
   sets_or_keeps RXState (processLSSBarometer b) \<and> sets_or_keeps RXState (processLSSTempRh h) \<and>
   sets_or_keeps TransBatteryFlag (processLSSBarometer b) \<and> sets_or_keeps TransBatteryFlag (processLSSTempRh h) \<and>
   sets_or_keeps RainfallDaily (processLSSBarometer b) \<and> sets_or_keeps RainfallDaily (processLSSTempRh h) \<and>
   sets_or_keeps RainfallMonthly (processLSSBarometer b) \<and> sets_or_keeps RainfallMonthly (processLSSTempRh h) \<and>
   sets_or_keeps RainfallYear (processLSSBarometer b) \<and> sets_or_keeps RainfallYear (processLSSTempRh h) \<and>
   sets_or_keeps RainStormLast (processLSSBarometer b) \<and> sets_or_keeps RainStormLast (processLSSTempRh h) \<and>
   sets_or_keeps RainStormLastStartAt (processLSSBarometer b) \<and> sets_or_keeps RainStormLastStartAt (processLSSTempRh h) \<and>
   sets_or_keeps RainStormLastEndAt (processLSSBarometer b) \<and> sets_or_keeps RainStormLastEndAt (processLSSTempRh h) \<and>
   sets_or_keeps BarometerSeaLevel (processLSSBarometer b) \<and> sets_or_keeps BarometerSeaLevel (processLSSTempRh h) \<and>
   sets_or_keeps BarometerTrend (processLSSBarometer b) \<and> sets_or_keeps BarometerTrend (processLSSTempRh h) \<and>
   sets_or_keeps BarometerAbsolute (processLSSBarometer b) \<and> sets_or_keeps BarometerAbsolute (processLSSTempRh h) \<and>
   sets_or_keeps TemperatureIndoor (processLSSBarometer b) \<and> sets_or_keeps TemperatureIndoor (processLSSTempRh h) \<and>
   sets_or_keeps HumidityIndoor (processLSSBarometer b) \<and> sets_or_keeps HumidityIndoor (processLSSTempRh h) \<and>
   sets_or_keeps DewPointIndoor (processLSSBarometer b) \<and> sets_or_keeps DewPointIndoor (processLSSTempRh h) \<and>
   sets_or_keeps HeatIndexIndoor (processLSSBarometer b) \<and> sets_or_keeps HeatIndexIndoor (processLSSTempRh h) \<and>
   sets_or_keeps notify (processLSSBarometer b) \<and> sets_or_keeps notify (processLSSTempRh h) \<and>
   sets_or_keeps verbose (processLSSBarometer b) \<and> sets_or_keeps verbose (processLSSTempRh h) \<and>
   sets_or_keeps lastChecksum (processLSSBarometer b) \<and> sets_or_keeps lastChecksum (processLSSTempRh h) \<and>
   sets_or_keeps lastBytes (processLSSBarometer b) \<and> sets_or_keeps lastBytes (processLSSTempRh h)"
  by (simp add: sets_or_keeps_def processLSSBarometer_def processLSSTempRh_def)

lemmas sets_or_keeps_fields =
  sets_or_keeps_plain_ISS sets_or_keeps_times_ISS sets_or_keeps_RXState_ISS
  sets_or_keeps_Battery_ISS sets_or_keeps_LSS sets_or_keeps_id

lemma processConditions_keeps:
  "DeviceID (snd (processConditions cs r)) = DeviceID r \<and>
   Timestamp (snd (processConditions cs r)) = Timestamp r \<and>
   notify (snd (processConditions cs r)) = notify r \<and>
   verbose (snd (processConditions cs r)) = verbose r \<and>
   lastChecksum (snd (processConditions cs r)) = lastChecksum r \<and>
   lastBytes (snd (processConditions cs r)) = lastBytes r"
proof (induction cs arbitrary: r)
  case Nil
  show ?case by simp
next
  case (Cons c cs)
  show ?case
  proof (cases "entry_effect c")
    case None
    then show ?thesis by (simp add: processConditions_Cons_effect del: processConditions.simps)
  next
    case (Some f)
    from entry_effect_cases [OF Some]
    have "DeviceID (f r) = DeviceID r \<and> Timestamp (f r) = Timestamp r \<and> notify (f r) = notify r \<and> verbose (f r) = verbose r \<and> lastChecksum (f r) = lastChecksum r \<and> lastBytes (f r) = lastBytes r"
      by (auto simp: processISS_def processLSSBarometer_def processLSSTempRh_def)
    with Cons.IH [of "f r"] show ?thesis
      by (simp add: processConditions_Cons_effect Some del: processConditions.simps)
  qed
qed

text \<open>Running the entries again on the result of a run, after a change \<open>B\<close> that keeps
  the field or on a field the run keeps, leaves the field as it is.\<close>

lemma field_rerun:
  assumes "sets_or_keeps sel (\<lambda>r. snd (processConditions cs r))"
    and "(\<forall>y. sel (B y) = sel y) \<or> (\<forall>x. sel (snd (processConditions cs x)) = sel x)"
  shows "sel (snd (processConditions cs (B (snd (processConditions cs r))))) =
         sel (B (snd (processConditions cs r)))"
  using assms unfolding sets_or_keeps_def by metis

lemma updateHook_keeps:
  "DeviceID (snd (updateHook m t r)) = DeviceID r \<and>
   Temperature (snd (updateHook m t r)) = Temperature r \<and>
   Humidity (snd (updateHook m t r)) = Humidity r \<and>
   Dewpoint (snd (updateHook m t r)) = Dewpoint r \<and>
   Wetbulb (snd (updateHook m t r)) = Wetbulb r \<and>
   HeatIndex (snd (updateHook m t r)) = HeatIndex r \<and>
   WindChill (snd (updateHook m t r)) = WindChill r \<and>
   THWIndex (snd (updateHook m t r)) = THWIndex r \<and>
   THSWIndex (snd (updateHook m t r)) = THSWIndex r \<and>
   WindSpeedLast (snd (updateHook m t r)) = WindSpeedLast r \<and>
   WindDirLast (snd (updateHook m t r)) = WindDirLast r \<and>
   WindSpeedAvgLast1Min (snd (updateHook m t r)) = WindSpeedAvgLast1Min r \<and>
   WindDirAvgLast1Min (snd (updateHook m t r)) = WindDirAvgLast1Min r \<and>
   WindSpeedAvgLast2Min (snd (updateHook m t r)) = WindSpeedAvgLast2Min r \<and>
   WindDirAvgLast2Min (snd (updateHook m t r)) = WindDirAvgLast2Min r \<and>
   WindSpeedHighLast2Min (snd (updateHook m t r)) = WindSpeedHighLast2Min r \<and>
   WindDirAtHighLast2Min (snd (updateHook m t r)) = WindDirAtHighLast2Min r \<and>
   WindSpeedAvgLast10Min (snd (updateHook m t r)) = WindSpeedAvgLast10Min r \<and>
   WindDirAvgLast10Min (snd (updateHook m t r)) = WindDirAvgLast10Min r \<and>
   WindSpeedHighLast10Min (snd (updateHook m t r)) = WindSpeedHighLast10Min r \<and>
   WindDirAtHighLast10Min (snd (updateHook m t r)) = WindDirAtHighLast10Min r \<and>
   RainSize (snd (updateHook m t r)) = RainSize r \<and>
   RainRateLast (snd (updateHook m t r)) = RainRateLast r \<and>
   RainRateHigh (snd (updateHook m t r)) = RainRateHigh r \<and>
   RainLast15Min (snd (updateHook m t r)) = RainLast15Min r \<and>
   RainRateHighLast15Min (snd (updateHook m t r)) = RainRateHighLast15Min r \<and>
   RainLast60Min (snd (updateHook m t r)) = RainLast60Min r \<and>
   RainLast24Hour (snd (updateHook m t r)) = RainLast24Hour r \<and>
   RainStorm (snd (updateHook m t r)) = RainStorm r \<and>
   RainStormStartAt (snd (updateHook m t r)) = RainStormStartAt r \<and>
   SolarRad (snd (updateHook m t r)) = SolarRad r \<and>
   UVIndex (snd (updateHook m t r)) = UVIndex r \<and>
   RXState (snd (updateHook m t r)) = RXState r \<and>
   TransBatteryFlag (snd (updateHook m t r)) = TransBatteryFlag r \<and>
   RainfallDaily (snd (updateHook m t r)) = RainfallDaily r \<and>
   RainfallMonthly (snd (updateHook m t r)) = RainfallMonthly r \<and>
   RainfallYear (snd (updateHook m t r)) = RainfallYear r \<and>
   RainStormLast (snd (updateHook m t r)) = RainStormLast r \<and>
   RainStormLastStartAt (snd (updateHook m t r)) = RainStormLastStartAt r \<and>
   RainStormLastEndAt (snd (updateHook m t r)) = RainStormLastEndAt r \<and>
   BarometerSeaLevel (snd (updateHook m t r)) = BarometerSeaLevel r \<and>
   BarometerTrend (snd (updateHook m t r)) = BarometerTrend r \<and>
   BarometerAbsolute (snd (updateHook m t r)) = BarometerAbsolute r \<and>
   TemperatureIndoor (snd (updateHook m t r)) = TemperatureIndoor r \<and>
   HumidityIndoor (snd (updateHook m t r)) = HumidityIndoor r \<and>
   DewPointIndoor (snd (updateHook m t r)) = DewPointIndoor r \<and>
   HeatIndexIndoor (snd (updateHook m t r)) = HeatIndexIndoor r \<and>
   verbose (snd (updateHook m t r)) = verbose r"
  by (simp add: updateHook_def checksum_eq Let_def trySend_def)

lemma updateHook_inSync:
  assumes "ready (snd (updateHook m t r))" and "serializable (snd (updateHook m t r))"
  shows "inSync (snd (updateHook m t r))"
proof -
  from assms(1) updateHook_keeps [of m t r] have rd: "ready r"
    by (simp add: ready_def)
  have ser: "serializable r"
  proof (rule ccontr)
    assume "\<not> serializable r"
    from updateHook_fails [OF this, of m t] assms(2) this show False by simp
  qed
  show ?thesis
  proof (cases "MD5Hex (ReportBytes (ReportJSON.truncate r)) = lastChecksum r")
    case True
    from updateHook_same [OF ser True, of m t] True show ?thesis
      by (simp add: inSync_def)
  next
    case False
    note ch = updateHook_changed [OF ser rd False, of m t]
    have mt: "marshalableTime t"
    proof (rule ccontr)
      assume "\<not> marshalableTime t"
      with assms(2) show False
        by (simp add: ch serializable_book serializable_Timestamp)
    qed
    show ?thesis
      unfolding inSync_def
      by (simp add: ch mt truncate_finalized) (simp add: trySend_def)
  qed
qed

lemma updateHook_idem:
  assumes "ready (snd (updateHook m t r))" and "serializable (snd (updateHook m t r))"
  shows "updateHook m' t' (snd (updateHook m t r)) = (Success, snd (updateHook m t r))"
  using updateHook_inSync [OF assms] assms(2) by (simp add: inSync_def updateHook_same)

lemma field_rerun_entries:
  assumes "\<And>v. sets_or_keeps sel (processISS v)"
    and "\<And>b. sets_or_keeps sel (processLSSBarometer b)"
    and "\<And>h. sets_or_keeps sel (processLSSTempRh h)"
    and "\<forall>c \<in> set cs. entry_effect c \<noteq> None"
    and "(\<forall>y. sel (B y) = sel y) \<or> (\<forall>x. sel (snd (processConditions cs x)) = sel x)"
  shows "sel (snd (processConditions cs (B (snd (processConditions cs r))))) =
         sel (B (snd (processConditions cs r)))"
proof -
  have "\<And>c f. entry_effect c = Some f \<Longrightarrow> sets_or_keeps sel f"
    using entry_effect_cases assms(1-3) sets_or_keeps_id by blast
  from field_rerun [OF sets_or_keeps_run [OF this assms(4)] assms(5)]
  show ?thesis .
qed

lemma processConditions_rerun:
  assumes ok: "\<forall>c \<in> set cs. entry_effect c \<noteq> None"
  shows "snd (processConditions cs (snd (updateHook m t (snd (processConditions cs r))))) =
         snd (updateHook m t (snd (processConditions cs r)))"
  apply (rule Report.equality)
  apply ((rule field_rerun_entries [where B = "\<lambda>y. snd (updateHook m t y)", OF _ _ _ ok];
          simp add: sets_or_keeps_fields updateHook_keeps processConditions_keeps)+)
  apply (simp_all add: sets_or_keeps_def)
  done

section \<open>Coalescing of notifications\<close>

lemma processISS_book:
  "notify (processISS v r) = notify r \<and> lastChecksum (processISS v r) = lastChecksum r \<and>
   lastBytes (processISS v r) = lastBytes r \<and> Timestamp (processISS v r) = Timestamp r \<and>
   DeviceID (processISS v r) = DeviceID r \<and> verbose (processISS v r) = verbose r"
  by (simp add: processISS_def)

lemma processISS_ready: "ready r \<Longrightarrow> ready (processISS v r)"
  by (simp add: processISS_def ready_def split: option.splits)

lemma processLSS_ready:
  "ready r \<Longrightarrow> ready (processLSSBarometer b r)"
  "ready r \<Longrightarrow> ready (processLSSTempRh h r)"
  by (simp_all add: processLSSBarometer_def processLSSTempRh_def ready_def)

lemma processConditions_ready:
  "ready r \<Longrightarrow> ready (snd (processConditions cs r))"
proof (induction cs arbitrary: r)
  case Nil
  then show ?case by simp
next
  case (Cons c cs)
  show ?case
  proof (cases "entry_effect c")
    case None
    with Cons.prems show ?thesis
      by (simp add: processConditions_Cons_effect del: processConditions.simps)
  next
    case (Some f)
    from entry_effect_cases [OF Some] Cons.prems have "ready (f r)"
      using processISS_ready processLSS_ready by auto
    from Cons.IH [OF this] show ?thesis
      by (simp add: processConditions_Cons_effect Some del: processConditions.simps)
  qed
qed

lemma applyMerge_decompose:
  assumes "applyMerge m r = (Success, r')"
  shows "\<exists>rm meth t. notify rm = notify r \<and> lastChecksum rm = lastChecksum r \<and>
           Timestamp rm = Timestamp r \<and> (ready r \<longrightarrow> ready rm) \<and>
           ReportJSON.truncate rm = mergedContent m r \<and>
           updateHook meth t rm = (Success, r')"
proof (cases m)
  case (Pull c)
  with assms have u: "UpdateHTTP c r = (Success, r')" by simp
  then obtain d where d: "http_Data c = Some d" and e: "http_Error c = None"
    by (auto simp: UpdateHTTP_def split: option.splits)
  let ?r0 = "r\<lparr>DeviceID := http_DeviceID d\<rparr>"
  obtain out rm where p: "processConditions (http_Conditions d) ?r0 = (out, rm)"
    by (cases "processConditions (http_Conditions d) ?r0")
  with u d e have out: "out = Success"
    by (cases out) (simp_all add: UpdateHTTP_def)
  with u d e p obtain ts where ts: "http_Timestamp d = Some ts"
    and h: "updateHook MethodHTTP ts rm = (Success, r')"
    by (auto simp: UpdateHTTP_def split: option.splits)
  from p have rm: "rm = snd (processConditions (http_Conditions d) ?r0)"
    by simp
  have "notify rm = notify r \<and> lastChecksum rm = lastChecksum r \<and> Timestamp rm = Timestamp r"
    using processConditions_keeps [of "http_Conditions d" ?r0] by (simp add: rm)
  moreover have "ready r \<longrightarrow> ready rm"
    using processConditions_ready [of ?r0 "http_Conditions d"] by (simp add: rm ready_def)
  moreover have "ReportJSON.truncate rm = mergedContent m r"
    by (simp add: Pull d rm)
  ultimately show ?thesis using h by blast
next
  case (Push u)
  let ?rm = "foldl applyEntryUDP (r\<lparr>DeviceID := udp_DeviceID u\<rparr>) (udp_Conditions u)"
  from Push assms have uu: "UpdateUDP u r = (Success, r')" by simp
  then obtain ts where ts: "udp_Timestamp u = Some ts"
    and h: "updateHook MethodUDP ts ?rm = (Success, r')"
    by (auto simp: UpdateUDP_def Let_def split: option.splits)
  from foldl_applyEntryUDP_book [of "r\<lparr>DeviceID := udp_DeviceID u\<rparr>" "udp_Conditions u"]
  have "notify ?rm = notify r \<and> lastChecksum ?rm = lastChecksum r \<and>
        Timestamp ?rm = Timestamp r \<and> (ready r \<longrightarrow> ready ?rm)"
    by (simp add: ready_def)
  moreover have "ReportJSON.truncate ?rm = mergedContent m r"
    by (simp add: Push)
  ultimately show ?thesis using h by blast
qed



lemma contentChanging_inSync:
  "inSync r \<Longrightarrow> contentChanging m r \<longleftrightarrow> mergedContent m r \<noteq> ReportJSON.truncate r"
  by (auto simp: contentChanging_def inSync_def)

lemma applyMerge_inSync:
  assumes "applyMerge m r = (Success, r')" and "ready r'" and "serializable r'"
  shows "inSync r'"
proof -
  from applyMerge_decompose [OF assms(1)]
  obtain rm meth t where h: "updateHook meth t rm = (Success, r')"
    by blast
  then have r': "r' = snd (updateHook meth t rm)"
    by simp
  from assms(2,3) show ?thesis
    unfolding r' by (rule updateHook_inSync)
qed



section \<open>Merging the same pull record set twice\<close>

text \<open>
  C5, as stated, fails: the pull record set \<open>farPull\<close> carries no error indicator
  and populates the receiver-health fields, but its timestamp lies beyond year 9999.
  The first merge into a fresh Report returns success and queues a notification; it
  stores that timestamp, and then the empty checksum, because the Report can no longer
  be serialized. The second merge computes no checksum at all: it returns the
  serialization error.
\<close>

theorem UpdateHTTP_idempotent_counterexample:
  "http_Error farPull = None \<and>
   fst (UpdateHTTP farPull (NewReport False)) = Success \<and>
   ready (snd (UpdateHTTP farPull (NewReport False))) \<and>
   notify (snd (UpdateHTTP farPull (NewReport False))) = 1 \<and>
   lastChecksum (snd (UpdateHTTP farPull (NewReport False))) = EmptyString \<and>
   fst (UpdateHTTP farPull (snd (UpdateHTTP farPull (NewReport False)))) = Failure MarshalerError"
  by (simp add: farPull_def sample_defs ready_def)

text \<open>
  C5, amended. If merging a pull record set with \<open>UpdateHTTP\<close> returns success and
  leaves a Report that has both receiver-health fields set and can be serialized (its
  instants lie in years 0 to 9999), then merging the same record set again returns
  success and gives back exactly the Report it was given: no notification is queued,
  the Timestamp, the stored checksum and the stored bytes are untouched, and the
  content hash that the second call computes is the stored one. The first call queues
  a notification (if the queue has room) exactly when the checksum of the content it
  wrote differs from the checksum stored before; on a Report whose stored checksum is
  still empty and whose queue is empty it always does.
\<close>

theorem UpdateHTTP_idempotent:
  assumes "UpdateHTTP c r = (Success, r1)" and "ready r1" and "serializable r1"
  shows "UpdateHTTP c r1 = (Success, r1) \<and>
         checksum r1 = Inr (lastChecksum r1, ReportBytes (ReportJSON.truncate r1)) \<and>
         notify r1 = (if contentChanging (Pull c) r then notify (trySend r) else notify r) \<and>
         (lastChecksum r = EmptyString \<and> notify r = 0 \<longrightarrow> notify r1 = 1)"
proof -
  from assms(1) obtain d where d: "http_Data c = Some d" and e: "http_Error c = None"
    by (auto simp: UpdateHTTP_def split: option.splits)
  let ?cs = "http_Conditions d"
  let ?r0 = "r\<lparr>DeviceID := http_DeviceID d\<rparr>"
  obtain out rm where p0: "processConditions ?cs ?r0 = (out, rm)"
    by (cases "processConditions ?cs ?r0")
  with assms(1) d e have out: "out = Success"
    by (cases out) (simp_all add: UpdateHTTP_def)
  from p0 have rm: "rm = snd (processConditions ?cs ?r0)"
    by simp
  from p0 out have "fst (processConditions ?cs ?r0) = Success"
    by simp
  then have ok: "\<forall>c \<in> set ?cs. entry_effect c \<noteq> None"
    by (simp add: processConditions_fst split: if_splits)
  from assms(1) d e p0 out obtain ts where ts: "http_Timestamp d = Some ts"
    and h: "updateHook MethodHTTP ts rm = (Success, r1)"
    by (auto simp: UpdateHTTP_def split: option.splits)
  from h have r1: "r1 = snd (updateHook MethodHTTP ts (snd (processConditions ?cs ?r0)))"
    by (simp add: rm)
  have dev: "DeviceID r1 = http_DeviceID d"
    using updateHook_keeps [of MethodHTTP ts "snd (processConditions ?cs ?r0)"]
      processConditions_keeps [of ?cs ?r0]
    by (simp add: r1)
  then have same: "r1\<lparr>DeviceID := http_DeviceID d\<rparr> = r1"
    by simp
  have "fst (processConditions ?cs r1) = Success"
    using ok by (simp add: processConditions_fst)
  moreover have "snd (processConditions ?cs r1) = r1"
    unfolding r1 by (rule processConditions_rerun [OF ok])
  ultimately have p1: "processConditions ?cs r1 = (Success, r1)"
    by (metis prod.collapse)
  from assms(2,3)
  have rd: "ready (snd (updateHook MethodHTTP ts (snd (processConditions ?cs ?r0))))"
    and sr: "serializable (snd (updateHook MethodHTTP ts (snd (processConditions ?cs ?r0))))"
    by (simp_all add: r1)
  have h1: "updateHook MethodHTTP ts r1 = (Success, r1)"
    unfolding r1 by (rule updateHook_idem [OF rd sr])
  have second: "UpdateHTTP c r1 = (Success, r1)"
    by (simp add: UpdateHTTP_def d e same p1 ts h1)
  from updateHook_inSync [OF rd sr] assms(3)
  have sum: "checksum r1 = Inr (lastChecksum r1, ReportBytes (ReportJSON.truncate r1))"
    by (simp add: checksum_eq inSync_def r1)
  have book: "notify rm = notify r" "lastChecksum rm = lastChecksum r"
    using processConditions_keeps [of ?cs ?r0] by (simp_all add: rm)
  have tr: "ReportJSON.truncate rm = mergedContent (Pull c) r"
    by (simp add: d rm)
  from h have ser: "serializable rm"
    using updateHook_fst [of MethodHTTP ts rm] by (cases "serializable rm") simp_all
  from assms(2) updateHook_keeps [of MethodHTTP ts rm] h have rdm: "ready rm"
    by (simp add: ready_def)
  have first: "notify r1 = (if contentChanging (Pull c) r then notify (trySend r) else notify r)"
  proof (cases "contentChanging (Pull c) r")
    case True
    with tr book(2) have ne: "MD5Hex (ReportBytes (ReportJSON.truncate rm)) \<noteq> lastChecksum rm"
      by (simp add: contentChanging_def)
    from updateHook_changed [OF ser rdm ne, of MethodHTTP ts] h True book(1)
    show ?thesis by (auto simp: trySend_def)
  next
    case False
    with tr book(2) have eq: "MD5Hex (ReportBytes (ReportJSON.truncate rm)) = lastChecksum rm"
      by (simp add: contentChanging_def)
    from updateHook_same [OF ser eq, of MethodHTTP ts] h False book(1)
    show ?thesis by simp
  qed
  have fresh: "lastChecksum r = EmptyString \<and> notify r = 0 \<longrightarrow> notify r1 = 1"
    using first by (simp add: contentChanging_def trySend_def notifyCap_def)
  from second sum first fresh show ?thesis by simp
qed

theorem UpdateHTTP_idempotent_witness:
  "UpdateHTTP samplePull (NewReport False) = (Success, sampleReport) \<and>
   ready sampleReport \<and> serializable sampleReport \<and>
   notify (NewReport False) = 0 \<and> notify sampleReport = 1 \<and>
   Temperature sampleReport = Some 72 \<and> DeviceID sampleReport = ''X'' \<and>
   UpdateHTTP samplePull sampleReport = (Success, sampleReport)"
proof -
  have f: "fst (UpdateHTTP samplePull (NewReport False)) = Success"
    by (simp add: sample_defs)
  then have u: "UpdateHTTP samplePull (NewReport False) = (Success, sampleReport)"
    unfolding sampleReport_def by (metis prod.collapse)
  have rd: "ready sampleReport" and sr: "serializable sampleReport"
    by (simp_all add: sample_defs ready_def)
  have v: "notify (NewReport False) = 0" "lastChecksum (NewReport False) = EmptyString"
    "Temperature sampleReport = Some 72" "DeviceID sampleReport = ''X''"
    by (simp_all add: sample_defs)
  from UpdateHTTP_idempotent [OF u rd sr] u rd sr v
  show ?thesis by simp
qed

section \<open>Serialized snapshots\<close>

lemma syncFields_fields:
  "DeviceID (syncFields n r) = DeviceID n \<and>
   Temperature (syncFields n r) = Temperature n \<and>
   Humidity (syncFields n r) = Humidity n \<and>
   Dewpoint (syncFields n r) = Dewpoint n \<and>
   Wetbulb (syncFields n r) = Wetbulb n \<and>
   HeatIndex (syncFields n r) = HeatIndex n \<and>
   WindChill (syncFields n r) = WindChill n \<and>
   THWIndex (syncFields n r) = THWIndex n \<and>
   THSWIndex (syncFields n r) = THSWIndex n \<and>
   WindSpeedLast (syncFields n r) = WindSpeedLast n \<and>
   WindDirLast (syncFields n r) = WindDirLast n \<and>
   WindSpeedAvgLast1Min (syncFields n r) = WindSpeedAvgLast1Min n \<and>
   WindDirAvgLast1Min (syncFields n r) = WindDirAvgLast1Min n \<and>
   WindSpeedAvgLast2Min (syncFields n r) = WindSpeedAvgLast2Min n \<and>
   WindDirAvgLast2Min (syncFields n r) = WindDirAvgLast2Min n \<and>
   WindSpeedHighLast2Min (syncFields n r) = WindSpeedHighLast2Min n \<and>
   WindDirAtHighLast2Min (syncFields n r) = WindDirAtHighLast2Min n \<and>
   WindSpeedAvgLast10Min (syncFields n r) = WindSpeedAvgLast10Min n \<and>
   WindDirAvgLast10Min (syncFields n r) = WindDirAvgLast10Min n \<and>
   WindSpeedHighLast10Min (syncFields n r) = WindSpeedHighLast10Min n \<and>
   WindDirAtHighLast10Min (syncFields n r) = WindDirAtHighLast10Min n \<and>
   RainSize (syncFields n r) = RainSize n \<and>
   RainRateLast (syncFields n r) = RainRateLast n \<and>
   RainRateHigh (syncFields n r) = RainRateHigh n \<and>
   RainLast15Min (syncFields n r) = RainLast15Min n \<and>
   RainRateHighLast15Min (syncFields n r) = RainRateHighLast15Min n \<and>
   RainLast60Min (syncFields n r) = RainLast60Min n \<and>
   RainLast24Hour (syncFields n r) = RainLast24Hour n \<and>
   RainStorm (syncFields n r) = RainStorm n \<and>
   RainStormStartAt (syncFields n r) = RainStormStartAt n \<and>
   SolarRad (syncFields n r) = SolarRad n \<and>
   UVIndex (syncFields n r) = UVIndex n \<and>
   RXState (syncFields n r) = RXState n \<and>
   TransBatteryFlag (syncFields n r) = TransBatteryFlag n \<and>
   RainfallDaily (syncFields n r) = RainfallDaily n \<and>
   RainfallMonthly (syncFields n r) = RainfallMonthly n \<and>
   RainfallYear (syncFields n r) = RainfallYear n \<and>
   RainStormLast (syncFields n r) = RainStormLast n \<and>
   RainStormLastStartAt (syncFields n r) = RainStormLastStartAt n \<and>
   RainStormLastEndAt (syncFields n r) = RainStormLastEndAt n \<and>
   BarometerSeaLevel (syncFields n r) = BarometerSeaLevel n \<and>
   BarometerTrend (syncFields n r) = BarometerTrend n \<and>
   BarometerAbsolute (syncFields n r) = BarometerAbsolute n \<and>
   TemperatureIndoor (syncFields n r) = TemperatureIndoor n \<and>
   HumidityIndoor (syncFields n r) = HumidityIndoor n \<and>
   DewPointIndoor (syncFields n r) = DewPointIndoor n \<and>
   HeatIndexIndoor (syncFields n r) = HeatIndexIndoor n \<and>
   Timestamp (syncFields n r) = Timestamp r \<and> notify (syncFields n r) = notify r \<and>
   verbose (syncFields n r) = verbose r \<and> lastChecksum (syncFields n r) = lastChecksum r \<and>
   lastBytes (syncFields n r) = lastBytes r"
  by (simp add: syncFields_def)

lemma truncate_fields:
  "DeviceID (ReportJSON.truncate r) = DeviceID r \<and>
   Timestamp (ReportJSON.truncate r) = Timestamp r \<and>
   Temperature (ReportJSON.truncate r) = Temperature r \<and>
   Humidity (ReportJSON.truncate r) = Humidity r \<and>
   Dewpoint (ReportJSON.truncate r) = Dewpoint r \<and>
   Wetbulb (ReportJSON.truncate r) = Wetbulb r \<and>
   HeatIndex (ReportJSON.truncate r) = HeatIndex r \<and>
   WindChill (ReportJSON.truncate r) = WindChill r \<and>
   THWIndex (ReportJSON.truncate r) = THWIndex r \<and>
   THSWIndex (ReportJSON.truncate r) = THSWIndex r \<and>
   WindSpeedLast (ReportJSON.truncate r) = WindSpeedLast r \<and>
   WindDirLast (ReportJSON.truncate r) = WindDirLast r \<and>
   WindSpeedAvgLast1Min (ReportJSON.truncate r) = WindSpeedAvgLast1Min r \<and>
   WindDirAvgLast1Min (ReportJSON.truncate r) = WindDirAvgLast1Min r \<and>
   WindSpeedAvgLast2Min (ReportJSON.truncate r) = WindSpeedAvgLast2Min r \<and>
   WindDirAvgLast2Min (ReportJSON.truncate r) = WindDirAvgLast2Min r \<and>
   WindSpeedHighLast2Min (ReportJSON.truncate r) = WindSpeedHighLast2Min r \<and>
   WindDirAtHighLast2Min (ReportJSON.truncate r) = WindDirAtHighLast2Min r \<and>
   WindSpeedAvgLast10Min (ReportJSON.truncate r) = WindSpeedAvgLast10Min r \<and>
   WindDirAvgLast10Min (ReportJSON.truncate r) = WindDirAvgLast10Min r \<and>
   WindSpeedHighLast10Min (ReportJSON.truncate r) = WindSpeedHighLast10Min r \<and>
   WindDirAtHighLast10Min (ReportJSON.truncate r) = WindDirAtHighLast10Min r \<and>
   RainSize (ReportJSON.truncate r) = RainSize r \<and>
   RainRateLast (ReportJSON.truncate r) = RainRateLast r \<and>
   RainRateHigh (ReportJSON.truncate r) = RainRateHigh r \<and>
   RainLast15Min (ReportJSON.truncate r) = RainLast15Min r \<and>
   RainRateHighLast15Min (ReportJSON.truncate r) = RainRateHighLast15Min r \<and>
   RainLast60Min (ReportJSON.truncate r) = RainLast60Min r \<and>
   RainLast24Hour (ReportJSON.truncate r) = RainLast24Hour r \<and>
   RainStorm (ReportJSON.truncate r) = RainStorm r \<and>
   RainStormStartAt (ReportJSON.truncate r) = RainStormStartAt r \<and>
   SolarRad (ReportJSON.truncate r) = SolarRad r \<and>
   UVIndex (ReportJSON.truncate r) = UVIndex r \<and>
   RXState (ReportJSON.truncate r) = RXState r \<and>
   TransBatteryFlag (ReportJSON.truncate r) = TransBatteryFlag r \<and>
   RainfallDaily (ReportJSON.truncate r) = RainfallDaily r \<and>
   RainfallMonthly (ReportJSON.truncate r) = RainfallMonthly r \<and>
   RainfallYear (ReportJSON.truncate r) = RainfallYear r \<and>
   RainStormLast (ReportJSON.truncate r) = RainStormLast r \<and>
   RainStormLastStartAt (ReportJSON.truncate r) = RainStormLastStartAt r \<and>
   RainStormLastEndAt (ReportJSON.truncate r) = RainStormLastEndAt r \<and>
   BarometerSeaLevel (ReportJSON.truncate r) = BarometerSeaLevel r \<and>
   BarometerTrend (ReportJSON.truncate r) = BarometerTrend r \<and>
   BarometerAbsolute (ReportJSON.truncate r) = BarometerAbsolute r \<and>
   TemperatureIndoor (ReportJSON.truncate r) = TemperatureIndoor r \<and>
   HumidityIndoor (ReportJSON.truncate r) = HumidityIndoor r \<and>
   DewPointIndoor (ReportJSON.truncate r) = DewPointIndoor r \<and>
   HeatIndexIndoor (ReportJSON.truncate r) = HeatIndexIndoor r"
  by (simp add: ReportJSON.truncate_def)

lemma syncFields_truncate:
  "ReportJSON.truncate (syncFields n r) = n\<lparr>Timestamp := Timestamp r\<rparr>"
  by (simp add: syncFields_def ReportJSON.truncate_def)

lemma syncFields_serializable:
  "serializable n \<Longrightarrow> serializable (syncFields n r) = marshalableTime (Timestamp r)"
  by (simp add: syncFields_def serializable_def)

lemma Decode_Encode: "Decode (Encode r) now tgt = UpdateJSON (lastBytes r) now tgt"
  by (simp add: Decode_def Encode_def)

lemma json_Unmarshal_Inr:
  "json_Unmarshal b = Inr n \<Longrightarrow> b = ReportBytes n \<and> serializable n"
  by (cases b) (simp_all add: json_Unmarshal_def split: if_splits)

lemma updateHook_Timestamp:
  "Timestamp (snd (updateHook m t r)) =
     (if serializable r \<and> ready r \<and> lastChecksum r \<noteq> MD5Hex (ReportBytes (ReportJSON.truncate r))
      then t else Timestamp r)"
  by (auto simp: updateHook_def checksum_eq Let_def trySend_def ready_def)

lemma updateHook_notify:
  "notify (snd (updateHook m t r)) =
     (if serializable r \<and> ready r \<and> lastChecksum r \<noteq> MD5Hex (ReportBytes (ReportJSON.truncate r))
      then notify (trySend r) else notify r)"
  by (auto simp: updateHook_def checksum_eq Let_def trySend_def ready_def)

text \<open>
  C3, as stated, fails in three ways. Decoding the encoded sample Report into a fresh
  Report at a later time gives a Report whose Timestamp is the time of decoding, not
  the Timestamp of the original. A Report can have a stored serialized form that is
  behind its content (\<open>staleReport\<close>: its temperature is 50, its stored form says 72),
  and then decoding reproduces the stored form, not the original. And decoding into a
  target whose Timestamp lies beyond year 9999 (the Report left by \<open>farPull\<close>) returns
  the serialization error.
\<close>

theorem Decode_Encode_Timestamp_counterexample:
  "lastBytes sampleReport = ReportBytes (ReportJSON.truncate sampleReport) \<and>
   fst (Decode (Encode sampleReport) (time_Unix 1600000100) (NewReport False)) = Success \<and>
   Timestamp sampleReport = time_Unix 1600000000 \<and>
   Timestamp (snd (Decode (Encode sampleReport) (time_Unix 1600000100) (NewReport False)))
     = time_Unix 1600000100 \<and>
   lastBytes staleReport = ReportBytes (ReportJSON.truncate sampleReport) \<and>
   Temperature staleReport = Some 50 \<and>
   Temperature (snd (Decode (Encode staleReport) (time_Unix 1600000100) (NewReport False)))
     = Some 72 \<and>
   fst (Decode (Encode sampleReport) (time_Unix 1600000100)
          (snd (UpdateHTTP farPull (NewReport False)))) = Failure MarshalerError"
proof -
  have a: "lastBytes sampleReport = ReportBytes (ReportJSON.truncate sampleReport)"
    "Timestamp sampleReport = time_Unix 1600000000"
    by (simp_all add: sample_defs)
  have b: "fst (Decode (Encode sampleReport) (time_Unix 1600000100) (NewReport False)) = Success"
    "Timestamp (snd (Decode (Encode sampleReport) (time_Unix 1600000100) (NewReport False)))
       = time_Unix 1600000100"
    by (simp_all add: sample_defs Decode_def Encode_def UpdateJSON_def json_Unmarshal_def
        syncFields_def)
  have c: "lastBytes staleReport = ReportBytes (ReportJSON.truncate sampleReport)"
    "Temperature staleReport = Some 50"
    by (simp_all add: staleReport_def stalePayload_def sample_defs UpdateJSON_def
        json_Unmarshal_def syncFields_def)
  have d: "Temperature (snd (Decode (Encode staleReport) (time_Unix 1600000100) (NewReport False)))
       = Some 72"
    by (simp add: Decode_Encode c(1))
       (simp add: sample_defs UpdateJSON_def json_Unmarshal_def syncFields_def)
  have e: "fst (Decode (Encode sampleReport) (time_Unix 1600000100)
          (snd (UpdateHTTP farPull (NewReport False)))) = Failure MarshalerError"
    by (simp add: Decode_Encode a(1))
       (simp add: farPull_def sample_defs UpdateJSON_def json_Unmarshal_def syncFields_def)
  from a b c d e show ?thesis by simp
qed

text \<open>
  C3, amended. For every Report that has a stored serialized form, and every target
  Report, \<open>Decode (Encode report)\<close> makes every visible field of the target other than
  \<open>Timestamp\<close> identical to the field recorded in the stored form, which is the
  original's field whenever the stored form is that of the original's current content.
  The call returns success when the target's own Timestamp lies in years 0 to 9999,
  and the serialization error otherwise. The target's \<open>Timestamp\<close> becomes the time of
  decoding when the call succeeds, the decoded content passes the readiness gate and
  its checksum differs from the target's stored one; it keeps its previous value
  otherwise. The target keeps its own verbosity flag and its own notification queue,
  to which one notification is sent in the same case. \<open>Decode\<close> of an encoded Report
  is \<open>UpdateJSON\<close> of its stored bytes (lemma \<open>Decode_Encode\<close>), so this is what
  \<open>UpdateJSON\<close> does: it replaces every visible field except \<open>Timestamp\<close>.
\<close>

theorem Decode_Encode_roundtrip:
  assumes "json_Unmarshal (lastBytes r) = Inr n"
  shows "(let ok = marshalableTime (Timestamp tgt);
              changed = (ok \<and> RXState n \<noteq> '''' \<and> TransBatteryFlag n \<noteq> '''' \<and>
                lastChecksum tgt \<noteq> MD5Hex (ReportBytes (n\<lparr>Timestamp := Timestamp tgt\<rparr>)));
              res = Decode (Encode r) now tgt; tgt' = snd res
          in fst res = (if ok then Success else Failure MarshalerError) \<and>
   DeviceID tgt' = DeviceID n \<and>
   Temperature tgt' = Temperature n \<and>
   Humidity tgt' = Humidity n \<and>
   Dewpoint tgt' = Dewpoint n \<and>
   Wetbulb tgt' = Wetbulb n \<and>
   HeatIndex tgt' = HeatIndex n \<and>
   WindChill tgt' = WindChill n \<and>
   THWIndex tgt' = THWIndex n \<and>
   THSWIndex tgt' = THSWIndex n \<and>
   WindSpeedLast tgt' = WindSpeedLast n \<and>
   WindDirLast tgt' = WindDirLast n \<and>
   WindSpeedAvgLast1Min tgt' = WindSpeedAvgLast1Min n \<and>
   WindDirAvgLast1Min tgt' = WindDirAvgLast1Min n \<and>
   WindSpeedAvgLast2Min tgt' = WindSpeedAvgLast2Min n \<and>
   WindDirAvgLast2Min tgt' = WindDirAvgLast2Min n \<and>
   WindSpeedHighLast2Min tgt' = WindSpeedHighLast2Min n \<and>
   WindDirAtHighLast2Min tgt' = WindDirAtHighLast2Min n \<and>
   WindSpeedAvgLast10Min tgt' = WindSpeedAvgLast10Min n \<and>
   WindDirAvgLast10Min tgt' = WindDirAvgLast10Min n \<and>
   WindSpeedHighLast10Min tgt' = WindSpeedHighLast10Min n \<and>
   WindDirAtHighLast10Min tgt' = WindDirAtHighLast10Min n \<and>
   RainSize tgt' = RainSize n \<and>
   RainRateLast tgt' = RainRateLast n \<and>
   RainRateHigh tgt' = RainRateHigh n \<and>
   RainLast15Min tgt' = RainLast15Min n \<and>
   RainRateHighLast15Min tgt' = RainRateHighLast15Min n \<and>
   RainLast60Min tgt' = RainLast60Min n \<and>
   RainLast24Hour tgt' = RainLast24Hour n \<and>
   RainStorm tgt' = RainStorm n \<and>
   RainStormStartAt tgt' = RainStormStartAt n \<and>
   SolarRad tgt' = SolarRad n \<and>
   UVIndex tgt' = UVIndex n \<and>
   RXState tgt' = RXState n \<and>
   TransBatteryFlag tgt' = TransBatteryFlag n \<and>
   RainfallDaily tgt' = RainfallDaily n \<and>
   RainfallMonthly tgt' = RainfallMonthly n \<and>
   RainfallYear tgt' = RainfallYear n \<and>
   RainStormLast tgt' = RainStormLast n \<and>
   RainStormLastStartAt tgt' = RainStormLastStartAt n \<and>
   RainStormLastEndAt tgt' = RainStormLastEndAt n \<and>
   BarometerSeaLevel tgt' = BarometerSeaLevel n \<and>
   BarometerTrend tgt' = BarometerTrend n \<and>
   BarometerAbsolute tgt' = BarometerAbsolute n \<and>
   TemperatureIndoor tgt' = TemperatureIndoor n \<and>
   HumidityIndoor tgt' = HumidityIndoor n \<and>
   DewPointIndoor tgt' = DewPointIndoor n \<and>
   HeatIndexIndoor tgt' = HeatIndexIndoor n \<and>
   Timestamp tgt' = (if changed then now else Timestamp tgt) \<and>
   verbose tgt' = verbose tgt \<and>
   notify tgt' = (if changed then notify (trySend tgt) else notify tgt) \<and>
   (json_Marshal r = Inr (lastBytes r) \<longrightarrow> n = ReportJSON.truncate r))"
proof -
  let ?s = "syncFields n tgt"
  from json_Unmarshal_Inr [OF assms] have lb: "lastBytes r = ReportBytes n" and sn: "serializable n"
    by simp_all
  have u: "Decode (Encode r) now tgt = updateHook MethodJSON now ?s"
    by (simp add: Decode_Encode UpdateJSON_def assms)
  have ser: "serializable ?s = marshalableTime (Timestamp tgt)"
    by (rule syncFields_serializable [OF sn])
  have rd: "ready ?s = (RXState n \<noteq> '''' \<and> TransBatteryFlag n \<noteq> '''')"
    using syncFields_fields [of n tgt] by (simp add: ready_def)
  have nt: "notify (trySend ?s) = notify (trySend tgt)"
    using syncFields_fields [of n tgt] by (simp add: trySend_def)
  have c: "lastChecksum ?s = lastChecksum tgt" and v: "verbose ?s = verbose tgt"
    and t: "Timestamp ?s = Timestamp tgt" and q: "notify ?s = notify tgt"
    using syncFields_fields [of n tgt] by simp_all
  have k: "DeviceID (snd (updateHook MethodJSON now ?s)) = DeviceID n \<and>
      Temperature (snd (updateHook MethodJSON now ?s)) = Temperature n \<and>
      Humidity (snd (updateHook MethodJSON now ?s)) = Humidity n \<and>
      Dewpoint (snd (updateHook MethodJSON now ?s)) = Dewpoint n \<and>
      Wetbulb (snd (updateHook MethodJSON now ?s)) = Wetbulb n \<and>
      HeatIndex (snd (updateHook MethodJSON now ?s)) = HeatIndex n \<and>
      WindChill (snd (updateHook MethodJSON now ?s)) = WindChill n \<and>
      THWIndex (snd (updateHook MethodJSON now ?s)) = THWIndex n \<and>
      THSWIndex (snd (updateHook MethodJSON now ?s)) = THSWIndex n \<and>
      WindSpeedLast (snd (updateHook MethodJSON now ?s)) = WindSpeedLast n \<and>
      WindDirLast (snd (updateHook MethodJSON now ?s)) = WindDirLast n \<and>
      WindSpeedAvgLast1Min (snd (updateHook MethodJSON now ?s)) = WindSpeedAvgLast1Min n \<and>
      WindDirAvgLast1Min (snd (updateHook MethodJSON now ?s)) = WindDirAvgLast1Min n \<and>
      WindSpeedAvgLast2Min (snd (updateHook MethodJSON now ?s)) = WindSpeedAvgLast2Min n \<and>
      WindDirAvgLast2Min (snd (updateHook MethodJSON now ?s)) = WindDirAvgLast2Min n \<and>
      WindSpeedHighLast2Min (snd (updateHook MethodJSON now ?s)) = WindSpeedHighLast2Min n \<and>
      WindDirAtHighLast2Min (snd (updateHook MethodJSON now ?s)) = WindDirAtHighLast2Min n \<and>
      WindSpeedAvgLast10Min (snd (updateHook MethodJSON now ?s)) = WindSpeedAvgLast10Min n \<and>
      WindDirAvgLast10Min (snd (updateHook MethodJSON now ?s)) = WindDirAvgLast10Min n \<and>
      WindSpeedHighLast10Min (snd (updateHook MethodJSON now ?s)) = WindSpeedHighLast10Min n \<and>
      WindDirAtHighLast10Min (snd (updateHook MethodJSON now ?s)) = WindDirAtHighLast10Min n \<and>
      RainSize (snd (updateHook MethodJSON now ?s)) = RainSize n \<and>
      RainRateLast (snd (updateHook MethodJSON now ?s)) = RainRateLast n \<and>
      RainRateHigh (snd (updateHook MethodJSON now ?s)) = RainRateHigh n \<and>
      RainLast15Min (snd (updateHook MethodJSON now ?s)) = RainLast15Min n \<and>
      RainRateHighLast15Min (snd (updateHook MethodJSON now ?s)) = RainRateHighLast15Min n \<and>
      RainLast60Min (snd (updateHook MethodJSON now ?s)) = RainLast60Min n \<and>
      RainLast24Hour (snd (updateHook MethodJSON now ?s)) = RainLast24Hour n \<and>
      RainStorm (snd (updateHook MethodJSON now ?s)) = RainStorm n \<and>
      RainStormStartAt (snd (updateHook MethodJSON now ?s)) = RainStormStartAt n \<and>
      SolarRad (snd (updateHook MethodJSON now ?s)) = SolarRad n \<and>
      UVIndex (snd (updateHook MethodJSON now ?s)) = UVIndex n \<and>
      RXState (snd (updateHook MethodJSON now ?s)) = RXState n \<and>
      TransBatteryFlag (snd (updateHook MethodJSON now ?s)) = TransBatteryFlag n \<and>
      RainfallDaily (snd (updateHook MethodJSON now ?s)) = RainfallDaily n \<and>
      RainfallMonthly (snd (updateHook MethodJSON now ?s)) = RainfallMonthly n \<and>
      RainfallYear (snd (updateHook MethodJSON now ?s)) = RainfallYear n \<and>
      RainStormLast (snd (updateHook MethodJSON now ?s)) = RainStormLast n \<and>
      RainStormLastStartAt (snd (updateHook MethodJSON now ?s)) = RainStormLastStartAt n \<and>
      RainStormLastEndAt (snd (updateHook MethodJSON now ?s)) = RainStormLastEndAt n \<and>
      BarometerSeaLevel (snd (updateHook MethodJSON now ?s)) = BarometerSeaLevel n \<and>
      BarometerTrend (snd (updateHook MethodJSON now ?s)) = BarometerTrend n \<and>
      BarometerAbsolute (snd (updateHook MethodJSON now ?s)) = BarometerAbsolute n \<and>
      TemperatureIndoor (snd (updateHook MethodJSON now ?s)) = TemperatureIndoor n \<and>
      HumidityIndoor (snd (updateHook MethodJSON now ?s)) = HumidityIndoor n \<and>
      DewPointIndoor (snd (updateHook MethodJSON now ?s)) = DewPointIndoor n \<and>
      HeatIndexIndoor (snd (updateHook MethodJSON now ?s)) = HeatIndexIndoor n"
    using updateHook_keeps [of MethodJSON now ?s] syncFields_fields [of n tgt]
    by simp
  have vb: "verbose (snd (updateHook MethodJSON now ?s)) = verbose tgt"
    using updateHook_keeps [of MethodJSON now ?s] v by simp
  have orig: "json_Marshal r = Inr (lastBytes r) \<longrightarrow> n = ReportJSON.truncate r"
    by (auto simp: json_Marshal_def lb split: if_splits)
  have out: "fst (updateHook MethodJSON now ?s) =
               (if marshalableTime (Timestamp tgt) then Success else Failure MarshalerError)"
    by (simp add: updateHook_fst ser)
  have ts: "Timestamp (snd (updateHook MethodJSON now ?s)) =
              (if marshalableTime (Timestamp tgt) \<and> RXState n \<noteq> '''' \<and> TransBatteryFlag n \<noteq> '''' \<and>
                  lastChecksum tgt \<noteq> MD5Hex (ReportBytes (n\<lparr>Timestamp := Timestamp tgt\<rparr>))
               then now else Timestamp tgt)"
    by (simp add: updateHook_Timestamp ser rd c t syncFields_truncate)
  have no: "notify (snd (updateHook MethodJSON now ?s)) =
              (if marshalableTime (Timestamp tgt) \<and> RXState n \<noteq> '''' \<and> TransBatteryFlag n \<noteq> '''' \<and>
                  lastChecksum tgt \<noteq> MD5Hex (ReportBytes (n\<lparr>Timestamp := Timestamp tgt\<rparr>))
               then notify (trySend tgt) else notify tgt)"
    by (simp add: updateHook_notify ser rd c q nt syncFields_truncate)
  show ?thesis
    unfolding Let_def u
    using k vb orig out ts no by simp
qed

theorem Decode_Encode_roundtrip_witness:
  "json_Unmarshal (lastBytes sampleReport) = Inr (ReportJSON.truncate sampleReport) \<and>
   (let tgt' = snd (Decode (Encode sampleReport) (time_Unix 1600000100) (NewReport True)) in
      fst (Decode (Encode sampleReport) (time_Unix 1600000100) (NewReport True)) = Success \<and>
      DeviceID tgt' = ''X'' \<and> Temperature tgt' = Some 72 \<and> RXState tgt' = ''Synced'' \<and>
      TransBatteryFlag tgt' = ''Nominal'' \<and> Timestamp tgt' = time_Unix 1600000100 \<and>
      verbose tgt' = True \<and> verbose sampleReport = False \<and> notify tgt' = 1)"
proof -
  have a: "json_Unmarshal (lastBytes sampleReport) = Inr (ReportJSON.truncate sampleReport)"
    by (simp add: sample_defs json_Unmarshal_def)
  have v: "DeviceID (ReportJSON.truncate sampleReport) = ''X''"
    "Temperature (ReportJSON.truncate sampleReport) = Some 72"
    "RXState (ReportJSON.truncate sampleReport) = ''Synced''"
    "TransBatteryFlag (ReportJSON.truncate sampleReport) = ''Nominal''"
    "verbose sampleReport = False"
    by (simp_all add: sample_defs)
  have t: "lastChecksum (NewReport True) = EmptyString" "verbose (NewReport True) = True"
    "notify (trySend (NewReport True)) = 1" "marshalableTime (Timestamp (NewReport True))"
    by (simp_all add: NewReport_def trySend_def notifyCap_def marshalableTime_def zeroTime_def)
  from Decode_Encode_roundtrip [OF a, of "NewReport True" "time_Unix 1600000100"] a v t
  show ?thesis by (simp add: Let_def)
qed

section \<open>Decoding pull payloads\<close>

lemma decodeList_no_Cont:
  assumes "x \<in> set xs" and "\<And>a e. f x \<noteq> Cont a e"
  shows "decodeList f xs \<noteq> Cont as e"
  using assms(1)
proof (induction xs arbitrary: as e)
  case Nil
  then show ?case by simp
next
  case (Cons y ys)
  show ?case
  proof (cases "y = x")
    case True
    with assms(2) show ?thesis
      by (cases "f x") auto
  next
    case False
    with Cons.prems have "x \<in> set ys" by simp
    from Cons.IH [OF this] show ?thesis
      by (auto split: dec.splits)
  qed
qed

lemma unknownRecord_rejected: "EntryHTTP_UnmarshalJSON unknownRecord = Err InvalidUnmarshalError"
  by (simp add: EntryHTTP_UnmarshalJSON_def unknownRecord_def conditionHeader_field_def
      zeroHeader_def decode_defs RecordISS_def RecordLSSBarometer_def RecordLSSTempRh_def)

text \<open>A batch that contains the record with the unknown discriminator never decodes,
  whatever the other records are.\<close>

lemma batch_with_unknownRecord:
  assumes "unknownRecord \<in> set records"
  shows "ParseHTTP (batch records) \<noteq> Ok c"
proof -
  have "\<And>a e. from_unmarshaler (EntryHTTP_UnmarshalJSON unknownRecord) \<noteq> Cont a e"
    by (simp add: unknownRecord_rejected from_unmarshaler_def)
  from decodeList_no_Cont [OF assms,
      of "\<lambda>x. from_unmarshaler (EntryHTTP_UnmarshalJSON x)", OF this]
  have "\<And>as e. decodeList (\<lambda>x. from_unmarshaler (EntryHTTP_UnmarshalJSON x)) records \<noteq> Cont as e" .
  then show ?thesis
    by (cases "decodeList (\<lambda>x. from_unmarshaler (EntryHTTP_UnmarshalJSON x)) records")
       (simp_all add: ParseHTTP_def batch_def ConditionsHTTP_field_def WeatherHTTP_field_def
          zeroWeatherHTTP_def decode_defs)
qed

text \<open>
  C4. The claim is that a record with an unknown discriminator is ignored and the
  remaining records of the batch are decoded. The decoder does otherwise: the batch of
  the known record alone decodes, and the same batch with the unknown record appended
  fails as a whole with the error of \<^verbatim>\<open>json.Unmarshal\<close> on a nil target.
\<close>

theorem ParseHTTP_unknown_discriminator:
  "ParseHTTP (batch [knownRecord]) =
     Ok \<lparr>http_Data = Some
           \<lparr>http_DeviceID = ''X'', http_Timestamp = Some (time_Unix 1600000000),
            http_Conditions =
              [\<lparr>LogicalSensorID = Some 1, DataStructureType = Some RecordISS,
                Values = ISSValues (sampleISS\<lparr>iss_TransmitterID := Some 1\<rparr>)\<rparr>]\<rparr>,
         http_Error = None\<rparr> \<and>
   ParseHTTP (batch [knownRecord, unknownRecord]) = Err InvalidUnmarshalError"
proof -
  have k: "EntryHTTP_UnmarshalJSON knownRecord =
             Ok \<lparr>LogicalSensorID = Some 1, DataStructureType = Some RecordISS,
                 Values = ISSValues (sampleISS\<lparr>iss_TransmitterID := Some 1\<rparr>)\<rparr>"
    by (simp add: EntryHTTP_UnmarshalJSON_def knownRecord_def conditionHeader_field_def
        zeroHeader_def decode_defs RecordISS_def WeatherISS_field_def zeroWeatherISS_def
        sampleISS_def SignalSynced_def BatteryNominal_def)
  show ?thesis
    by (simp add: ParseHTTP_def batch_def ConditionsHTTP_field_def WeatherHTTP_field_def
        zeroWeatherHTTP_def decode_defs k unknownRecord_rejected)
qed

section \<open>What the decoder hands to the pull merge\<close>

lemma decodeFields_invariant:
  assumes "\<And>k v s s' e. P s \<Longrightarrow> f k v s = Cont s' e \<Longrightarrow> P s'"
    and "P s" and "decodeFields f kvs s e0 = Cont s' e'"
  shows "P s'"
  using assms(2,3)
proof (induction kvs arbitrary: s e0)
  case Nil
  then show ?case by simp
next
  case (Cons kv kvs)
  obtain k v where kv: "kv = (k, v)" by (cases kv)
  from Cons.prems(2) kv obtain s1 e1 where step: "f (foldName k) v s = Cont s1 e1"
    and rest: "decodeFields f kvs s1 (first_error e0 e1) = Cont s' e'"
    by (cases "f (foldName k) v s") simp_all
  from assms(1) [OF Cons.prems(1) step] have "P s1" .
  from Cons.IH [OF this rest] show ?case .
qed

lemma decodeStruct_invariant:
  assumes "\<And>k v s s' e. P s \<Longrightarrow> f k v s = Cont s' e \<Longrightarrow> P s'"
    and "P s" and "decodeStruct f s v = Cont s' e'"
  shows "P s'"
proof (cases v)
  case (JObj kvs)
  with assms(3) have "decodeFields f kvs s None = Cont s' e'"
    by (simp add: decodeStruct_def)
  from decodeFields_invariant [of P f, OF assms(1) assms(2) this] show ?thesis .
qed (use assms(2,3) in \<open>auto simp: decodeStruct_def\<close>)

lemma decodeList_all:
  assumes "\<And>x a e. f x = Cont a e \<Longrightarrow> Q a" and "decodeList f xs = Cont as e'"
  shows "\<forall>a \<in> set as. Q a"
  using assms(2)
proof (induction xs arbitrary: as e')
  case Nil
  then show ?case by simp
next
  case (Cons x xs)
  from Cons.prems obtain a e1 bs e2 where a: "f x = Cont a e1"
    and bs: "decodeList f xs = Cont bs e2" and as: "as = a # bs"
    by (auto split: dec.splits)
  from assms(1) [OF a] Cons.IH [OF bs] as show ?case by simp
qed

lemma EntryHTTP_UnmarshalJSON_effect:
  assumes "EntryHTTP_UnmarshalJSON x = Ok c"
  shows "entry_effect c \<noteq> None"
  using assms
  by (auto simp: EntryHTTP_UnmarshalJSON_def entry_effect_def
      split: result.splits option.splits if_splits)

lemma WeatherHTTP_field_effects:
  assumes "\<forall>c \<in> set (http_Conditions s). entry_effect c \<noteq> None"
    and "WeatherHTTP_field k v s = Cont s' e"
  shows "\<forall>c \<in> set (http_Conditions s'). entry_effect c \<noteq> None"
proof (cases "k = ''conditions''")
  case False
  with assms show ?thesis
    by (auto simp: WeatherHTTP_field_def dec_map_def split: if_splits dec.splits)
next
  case True
  let ?f = "\<lambda>x. from_unmarshaler (EntryHTTP_UnmarshalJSON x)"
  have elem: "\<And>x a e. ?f x = Cont a e \<Longrightarrow> entry_effect a \<noteq> None"
    using EntryHTTP_UnmarshalJSON_effect
    by (auto simp: from_unmarshaler_def split: result.splits)
  from True assms(2) obtain cs e1 where
    sl: "decodeSlice ?f (http_Conditions s) v = Cont cs e1" and s': "http_Conditions s' = cs"
    by (auto simp: WeatherHTTP_field_def dec_map_def split: dec.splits)
  show ?thesis
  proof (cases v)
    case (JArr xs)
    with sl have "decodeList ?f xs = Cont cs e1"
      by (simp add: decodeSlice_def)
    from decodeList_all [of ?f "\<lambda>a. entry_effect a \<noteq> None", OF elem this] s'
    show ?thesis by simp
  qed (use sl s' assms(1) in \<open>auto simp: decodeSlice_def\<close>)
qed

lemma ConditionsHTTP_field_effects:
  assumes "\<forall>d. http_Data s = Some d \<longrightarrow> (\<forall>c \<in> set (http_Conditions d). entry_effect c \<noteq> None)"
    and "ConditionsHTTP_field k v s = Cont s' e"
  shows "\<forall>d. http_Data s' = Some d \<longrightarrow> (\<forall>c \<in> set (http_Conditions d). entry_effect c \<noteq> None)"
proof (cases "k = ''data''")
  case False
  with assms show ?thesis
    by (auto simp: ConditionsHTTP_field_def dec_map_def split: if_splits dec.splits)
next
  case True
  show ?thesis
  proof (intro allI impI)
    fix d
    assume d: "http_Data s' = Some d"
    from True assms(2) d obtain e1 where
      "decodePtr WeatherHTTP_field zeroWeatherHTTP v = Cont (Some d) e1"
      by (auto simp: ConditionsHTTP_field_def dec_map_def split: dec.splits)
    then obtain e2 where st: "decodeStruct WeatherHTTP_field zeroWeatherHTTP v = Cont d e2"
      by (cases v; cases "decodeStruct WeatherHTTP_field zeroWeatherHTTP v")
         (auto simp: decodePtr_def dec_map_def)
    have z: "\<forall>c \<in> set (http_Conditions zeroWeatherHTTP). entry_effect c \<noteq> None"
      by (simp add: zeroWeatherHTTP_def)
    from decodeStruct_invariant
      [of "\<lambda>s. \<forall>c \<in> set (http_Conditions s). entry_effect c \<noteq> None" WeatherHTTP_field,
        OF WeatherHTTP_field_effects z st]
    show "\<forall>c \<in> set (http_Conditions d). entry_effect c \<noteq> None" .
  qed
qed

lemma ParseHTTP_effects:
  assumes "ParseHTTP payload = Ok c" and "http_Data c = Some d"
  shows "\<forall>x \<in> set (http_Conditions d). entry_effect x \<noteq> None"
proof -
  let ?z = "\<lparr>http_Data = None, http_Error = None\<rparr>"
  let ?P = "\<lambda>s. \<forall>d. http_Data s = Some d \<longrightarrow> (\<forall>x \<in> set (http_Conditions d). entry_effect x \<noteq> None)"
  from assms(1) have st: "decodeStruct ConditionsHTTP_field ?z payload = Cont c None"
    by (auto simp: ParseHTTP_def finish_def split: dec.splits option.splits)
  have "?P ?z" by simp
  from decodeStruct_invariant [of ?P ConditionsHTTP_field, OF ConditionsHTTP_field_effects this st]
    assms(2)
  show ?thesis by simp
qed

lemma UpdateHTTP_decoded_Panic_iff:
  assumes "ParseHTTP payload = Ok c"
  shows "fst (UpdateHTTP c r) = Panic \<longleftrightarrow>
         http_Error c = None \<and>
         (http_Data c = None \<or> (\<exists>d. http_Data c = Some d \<and> http_Timestamp d = None))"
proof (cases "http_Error c")
  case (Some e)
  then show ?thesis by (simp add: UpdateHTTP_def)
next
  case None
  show ?thesis
  proof (cases "http_Data c")
    case nodata: None
    with None show ?thesis by (simp add: UpdateHTTP_def)
  next
    case (Some d)
    let ?p = "processConditions (http_Conditions d) (r\<lparr>DeviceID := http_DeviceID d\<rparr>)"
    from ParseHTTP_effects [OF assms Some] have "fst ?p = Success"
      by (simp add: processConditions_fst)
    then obtain rm where p: "?p = (Success, rm)"
      by (cases ?p) simp
    show ?thesis
      using None Some p
      by (cases "http_Timestamp d") (simp_all add: UpdateHTTP_def updateHook_not_Panic)
  qed
qed

section \<open>Records without a timestamp\<close>

lemma decodeFields_keeps:
  assumes "\<And>k v s s' e. (k, v) \<in> set kvs \<Longrightarrow> f (foldName k) v s = Cont s' e \<Longrightarrow> sel s' = sel s"
    and "decodeFields f kvs s e0 = Cont s' e'"
  shows "sel s' = sel s"
  using assms
proof (induction kvs arbitrary: s e0)
  case Nil
  then show ?case by simp
next
  case (Cons kv kvs)
  obtain k v where kv: "kv = (k, v)" by (cases kv)
  from Cons.prems(2) kv obtain s1 e1 where step: "f (foldName k) v s = Cont s1 e1"
    and rest: "decodeFields f kvs s1 (first_error e0 e1) = Cont s' e'"
    by (cases "f (foldName k) v s") simp_all
  have "sel s1 = sel s"
    using Cons.prems(1) [of k v s s1 e1] kv step by simp
  moreover have "sel s' = sel s1"
  proof (rule Cons.IH [OF _ rest])
    fix k' v' t t' e''
    assume "(k', v') \<in> set kvs" and "f (foldName k') v' t = Cont t' e''"
    then show "sel t' = sel t"
      using Cons.prems(1) [of k' v' t t' e''] by simp
  qed
  ultimately show ?case by simp
qed

lemma ConditionsUDP_field_keeps_ts:
  assumes "k \<noteq> ''ts''" and "ConditionsUDP_field k v s = Cont s' e"
  shows "udp_Timestamp s' = udp_Timestamp s"
  using assms
  by (auto simp: ConditionsUDP_field_def dec_map_def split: if_splits dec.splits)

lemma ParseUDP_without_ts:
  assumes "''ts'' \<notin> foldName ` fst ` set kvs" and "ParseUDP (JObj kvs) = Ok u"
  shows "udp_Timestamp u = None"
proof -
  from assms(2) have d: "decodeFields ConditionsUDP_field kvs zeroConditionsUDP None = Cont u None"
    by (auto simp: ParseUDP_def finish_def decodeStruct_def split: dec.splits option.splits)
  have "udp_Timestamp u = udp_Timestamp zeroConditionsUDP"
  proof (rule decodeFields_keeps [OF _ d])
    fix k v s s' e
    assume "(k, v) \<in> set kvs" and c: "ConditionsUDP_field (foldName k) v s = Cont s' e"
    with assms(1) have "foldName k \<noteq> ''ts''" by force
    from ConditionsUDP_field_keeps_ts [OF this c]
    show "udp_Timestamp s' = udp_Timestamp s" .
  qed
  then show ?thesis by (simp add: zeroConditionsUDP_def)
qed

lemma ConditionsHTTP_field_keeps_data:
  assumes "k \<noteq> ''data''" and "ConditionsHTTP_field k v s = Cont s' e"
  shows "http_Data s' = http_Data s"
  using assms
  by (auto simp: ConditionsHTTP_field_def dec_map_def split: if_splits dec.splits)

lemma ParseHTTP_without_data:
  assumes "''data'' \<notin> foldName ` fst ` set kvs" and "ParseHTTP (JObj kvs) = Ok c"
  shows "http_Data c = None"
proof -
  let ?z = "\<lparr>http_Data = None, http_Error = None\<rparr>"
  from assms(2) have d: "decodeFields ConditionsHTTP_field kvs ?z None = Cont c None"
    by (auto simp: ParseHTTP_def finish_def decodeStruct_def split: dec.splits option.splits)
  have "http_Data c = http_Data ?z"
  proof (rule decodeFields_keeps [OF _ d])
    fix k v s s' e
    assume "(k, v) \<in> set kvs" and c: "ConditionsHTTP_field (foldName k) v s = Cont s' e"
    with assms(1) have "foldName k \<noteq> ''data''" by force
    from ConditionsHTTP_field_keeps_data [OF this c]
    show "http_Data s' = http_Data s" .
  qed
  then show ?thesis by simp
qed

lemma UpdateUDP_Panic_iff: "fst (UpdateUDP u r) = Panic \<longleftrightarrow> udp_Timestamp u = None"
  by (cases "udp_Timestamp u") (simp_all add: UpdateUDP_def Let_def updateHook_not_Panic)

lemma UpdateHTTP_Panic:
  assumes "http_Error c = None"
    and "http_Data c = None \<or> (\<exists>d. http_Data c = Some d \<and> http_Timestamp d = None)"
  shows "fst (UpdateHTTP c r) = Panic"
proof (cases "http_Data c")
  case None
  with assms(1) show ?thesis by (simp add: UpdateHTTP_def)
next
  case (Some d)
  with assms(2) have ts: "http_Timestamp d = None" by simp
  let ?p = "processConditions (http_Conditions d) (r\<lparr>DeviceID := http_DeviceID d\<rparr>)"
  have "fst ?p = Success \<or> fst ?p = Panic"
    by (simp add: processConditions_fst)
  then show ?thesis
    using assms(1) Some ts by (cases ?p) (auto simp: UpdateHTTP_def)
qed

text \<open>
  C10. The decoders do not require the timestamp or the data object: a payload that
  \<open>ParseUDP\<close> accepts and that has no \<^verbatim>\<open>ts\<close> member (under any spelling) decodes to a record whose
  \<open>Timestamp\<close> is nil, and a payload that \<open>ParseHTTP\<close> accepts and that has no
  \<^verbatim>\<open>data\<close> member decodes to conditions whose \<open>Data\<close> is nil. \<open>UpdateUDP\<close> panics
  exactly when the record's \<open>Timestamp\<close> is nil, and \<open>UpdateHTTP\<close> panics whenever
  the conditions carry no error indicator and \<open>Data\<close> is nil or its \<open>Timestamp\<close> is
  nil; on conditions that \<open>ParseHTTP\<close> produced it panics in no other case. So the
  merges return exactly when the decoded conditions carry the data object and the
  timestamp (or, for the pull merge, an error indicator).
\<close>

theorem merge_panics_without_timestamp:
  "(\<forall>kvs u. ''ts'' \<notin> foldName ` fst ` set kvs \<longrightarrow> ParseUDP (JObj kvs) = Ok u \<longrightarrow> udp_Timestamp u = None) \<and>
   (\<forall>kvs c. ''data'' \<notin> foldName ` fst ` set kvs \<longrightarrow> ParseHTTP (JObj kvs) = Ok c \<longrightarrow> http_Data c = None) \<and>
   (\<forall>u r. fst (UpdateUDP u r) = Panic \<longleftrightarrow> udp_Timestamp u = None) \<and>
   (\<forall>c r. http_Error c = None \<longrightarrow>
      http_Data c = None \<or> (\<exists>d. http_Data c = Some d \<and> http_Timestamp d = None) \<longrightarrow>
      fst (UpdateHTTP c r) = Panic) \<and>
   (\<forall>payload c r. ParseHTTP payload = Ok c \<longrightarrow>
      (fst (UpdateHTTP c r) = Panic \<longleftrightarrow>
       http_Error c = None \<and>
       (http_Data c = None \<or> (\<exists>d. http_Data c = Some d \<and> http_Timestamp d = None))))"
proof (intro conjI allI impI)
  fix kvs u
  assume "''ts'' \<notin> foldName ` fst ` set kvs" and "ParseUDP (JObj kvs) = Ok u"
  then show "udp_Timestamp u = None" by (rule ParseUDP_without_ts)
next
  fix kvs c
  assume "''data'' \<notin> foldName ` fst ` set kvs" and "ParseHTTP (JObj kvs) = Ok c"
  then show "http_Data c = None" by (rule ParseHTTP_without_data)
next
  fix u :: ConditionsUDP and r :: Report
  show "fst (UpdateUDP u r) = Panic \<longleftrightarrow> udp_Timestamp u = None"
    by (rule UpdateUDP_Panic_iff)
next
  fix c :: ConditionsHTTP and r :: Report
  assume "http_Error c = None"
    and "http_Data c = None \<or> (\<exists>d. http_Data c = Some d \<and> http_Timestamp d = None)"
  then show "fst (UpdateHTTP c r) = Panic" by (rule UpdateHTTP_Panic)
next
  fix payload and c :: ConditionsHTTP and r :: Report
  assume "ParseHTTP payload = Ok c"
  then show "fst (UpdateHTTP c r) = Panic \<longleftrightarrow>
       http_Error c = None \<and>
       (http_Data c = None \<or> (\<exists>d. http_Data c = Some d \<and> http_Timestamp d = None))"
    by (rule UpdateHTTP_decoded_Panic_iff)
qed

theorem merge_panics_without_timestamp_witness:
  "ParseUDP (JObj [(''did'', JStr ''X''),
                   (''conditions'', JArr [JObj [(''wind_speed_last'', JInt 5)]])])
     = Ok pushWithoutTimestamp \<and>
   fst (UpdateUDP pushWithoutTimestamp sampleReport) = Panic \<and>
   ParseHTTP (JObj [(''error'', JNull)]) = Ok \<lparr>http_Data = None, http_Error = None\<rparr> \<and>
   fst (UpdateHTTP \<lparr>http_Data = None, http_Error = None\<rparr> sampleReport) = Panic \<and>
   ParseHTTP (JObj [(''data'', JObj [(''did'', JStr ''X''), (''conditions'', JArr [knownRecord])])])
     = Ok \<lparr>http_Data = Some
             \<lparr>http_DeviceID = ''X'', http_Timestamp = None,
              http_Conditions =
                [\<lparr>LogicalSensorID = Some 1, DataStructureType = Some RecordISS,
                  Values = ISSValues (sampleISS\<lparr>iss_TransmitterID := Some 1\<rparr>)\<rparr>]\<rparr>,
           http_Error = None\<rparr> \<and>
   fst (UpdateHTTP
          \<lparr>http_Data = Some
             \<lparr>http_DeviceID = ''X'', http_Timestamp = None,
              http_Conditions =
                [\<lparr>LogicalSensorID = Some 1, DataStructureType = Some RecordISS,
                  Values = ISSValues (sampleISS\<lparr>iss_TransmitterID := Some 1\<rparr>)\<rparr>]\<rparr>,
           http_Error = None\<rparr> sampleReport) = Panic"
proof -
  have p1: "ParseUDP (JObj [(''did'', JStr ''X''),
                   (''conditions'', JArr [JObj [(''wind_speed_last'', JInt 5)]])])
     = Ok pushWithoutTimestamp"
    by (simp add: ParseUDP_def ConditionsUDP_field_def EntryUDP_field_def decode_defs
        zeroConditionsUDP_def pushWithoutTimestamp_def)
  have p2: "ParseHTTP (JObj [(''error'', JNull)]) = Ok \<lparr>http_Data = None, http_Error = None\<rparr>"
    by (simp add: ParseHTTP_def ConditionsHTTP_field_def decode_defs)
  have k: "EntryHTTP_UnmarshalJSON knownRecord =
             Ok \<lparr>LogicalSensorID = Some 1, DataStructureType = Some RecordISS,
                 Values = ISSValues (sampleISS\<lparr>iss_TransmitterID := Some 1\<rparr>)\<rparr>"
    by (simp add: EntryHTTP_UnmarshalJSON_def knownRecord_def conditionHeader_field_def
        zeroHeader_def decode_defs RecordISS_def WeatherISS_field_def zeroWeatherISS_def
        sampleISS_def SignalSynced_def BatteryNominal_def)
  have p3: "ParseHTTP (JObj [(''data'', JObj [(''did'', JStr ''X''), (''conditions'', JArr [knownRecord])])])
     = Ok \<lparr>http_Data = Some
             \<lparr>http_DeviceID = ''X'', http_Timestamp = None,
              http_Conditions =
                [\<lparr>LogicalSensorID = Some 1, DataStructureType = Some RecordISS,
                  Values = ISSValues (sampleISS\<lparr>iss_TransmitterID := Some 1\<rparr>)\<rparr>]\<rparr>,
           http_Error = None\<rparr>"
    by (simp add: ParseHTTP_def ConditionsHTTP_field_def WeatherHTTP_field_def
        zeroWeatherHTTP_def decode_defs k)
  have t: "udp_Timestamp pushWithoutTimestamp = None"
    by (simp add: pushWithoutTimestamp_def)
  from merge_panics_without_timestamp p1 p2 p3 t
  show ?thesis by simp
qed

end
